theory Spec2Isabelle
  imports Main "HOL-Library.Sublist"
begin

section \<open>Data model\<close>

text \<open>
  The package has two services, \<open>HttpService\<close> (deprecated, bound to one protocol, with a
  retry loop) and \<open>HttpClientService\<close> (takes the protocol from the host URL, no retry
  loop). Both wrap the platform's request function and hand the settled promise to
  \<open>to\<close> of await-to-js, which turns it into a two-slot tuple.

  Values of the platform are modelled as follows. An \<open>Error\<close> object is its class and
  its message. A JavaScript value that may be \<open>undefined\<close>, \<open>null\<close> or a string is a
  datatype with one constructor for each.
\<close>

datatype error_class =
  ErrorC | TypeErrorC | SyntaxErrorC | RequestTimeoutErrorC | ServiceUnavailableErrorC

datatype js_error = JsError (error_class: error_class) (message: string)

datatype HttpMethod = GET | POST | PUT | DELETE

fun methodName :: "HttpMethod \<Rightarrow> string" where
  "methodName GET = ''GET''"
| "methodName POST = ''POST''"
| "methodName PUT = ''PUT''"
| "methodName DELETE = ''DELETE''"

text \<open>\<open>RequestOptions.host\<close> has type \<open>string | null | undefined\<close>.\<close>

datatype host_val = HostUndefined | HostNull | HostStr string

text \<open>\<open>RequestOptions.port\<close> has type \<open>number | string | null | undefined\<close>.\<close>

datatype port_val = PortUndefined | PortNull | PortNum nat | PortStr string

text \<open>
  The peer certificate handed to the identity check: \<open>fingerprint256\<close> may be missing,
  \<open>fingerprint\<close> is the legacy digest.
\<close>

record cert =
  fingerprint256 :: "string option"
  fingerprint :: string

text \<open>
  The options an https \<open>Agent\<close> was built with. \<open>checkServerIdentity\<close> returns
  \<open>undefined\<close> (here \<open>None\<close>) to accept the peer and an \<open>Error\<close> to reject it.
\<close>

record agent_options =
  checkServerIdentity :: "(string \<Rightarrow> cert \<Rightarrow> js_error option) option"
  keepAlive :: "bool option"

text \<open>
  \<open>options.agent\<close>: absent, a boolean, an agent that is not an instance of the https
  \<open>Agent\<close> class (a plain http agent), or an https agent.
\<close>

datatype agent_val =
  AgentUndefined | AgentBool bool | PlainAgent | TlsAgent agent_options

text \<open>
  The fields of \<open>ExtendedRequestOptions\<close> that the services read or write. \<open>maxRetries\<close>
  and \<open>retryDelay\<close> are numbers of the source; the model takes the integers among them
  (with a negative \<open>maxRetries\<close> the guard \<open>retries < maxRetries\<close> never holds).
  \<open>frozen\<close> says that the caller passed a frozen object: the compiled modules are
  strict, so an assignment to a property of such an object throws a \<open>TypeError\<close>.
\<close>

record options =
  host :: host_val
  port :: port_val
  "method" :: "string option"
  agent :: agent_val
  maxRetries :: "int option"
  retryDelay :: "int option"
  frozen :: bool

text \<open>
  The \<open>TypeError\<close> of a write to a frozen object. The platform's message also depends
  on whether the property exists; the model keeps the class and names the property.
\<close>

definition readOnlyError :: "string \<Rightarrow> js_error" where
  "readOnlyError prop = JsError TypeErrorC (''Cannot assign to read only property '' @ prop)"

text \<open>
  An incoming message as the response callback receives it, and the clone of it that is
  resolved or rejected, with the decoded body in \<open>data\<close>. A chunk is what the stream hands
  to the \<open>data\<close> handler: a string when \<open>setEncoding('utf8')\<close> was called, a buffer
  otherwise; both are strings of the model.
\<close>

datatype 'j decoded = JsonData 'j | BinaryData string | TextData string

record incoming =
  statusCode :: "nat option"
  statusMessage :: "string option"
  headers :: "string \<rightharpoonup> string"

record 'j res = incoming +
  data :: "'j decoded option"

text \<open>What a promise is rejected with: an \<open>Error\<close> or the cloned response.\<close>

datatype 'j rejection = RejError js_error | RejResponse "'j res"

datatype 'j settled = Resolved "'j res" | Rejected "'j rejection"

text \<open>
  The transport primitive, as the handlers see it. A request emits events: its response
  arrives and the stream ends (\<open>End\<close>, with the message and the chunks that the
  \<open>data\<close> array of that request has collected), or the request emits \<open>error\<close>,
  \<open>timeout\<close> or \<open>abort\<close>. No handler destroys a request, so a request that timed out
  may emit further events, and the requests that retries start run beside it: all of
  them share \<open>retries\<close>, \<open>resolve\<close> and \<open>reject\<close>.

  A trace lists what happens during one call, in the order in which the runtime delivers
  it: \<open>Emit\<close> is an event of one of the requests, \<open>Start\<close> is a timer of a retry that
  fires and runs \<open>performRequest\<close>, where creating the request or writing the body may
  throw. The platform throws \<open>Error\<close> objects only, so the test \<open>err instanceof Error\<close>
  of the \<open>catch\<close> clauses holds for every value they receive. A call whose trace holds no
  event that settles the promise (a response that never ends, say) stays pending.
\<close>

datatype event =
  End incoming "string list"
| ErrorEvent js_error
| TimeoutEvent
| AbortEvent

datatype item = Emit event | Start "js_error option"

text \<open>
  \<open>JSON.parse\<close> is a parameter of the model: a function from the text to the parsed
  value or to the \<open>SyntaxError\<close> it throws.
\<close>

type_synonym 'j json_parse = "string \<Rightarrow> js_error + 'j"

section \<open>Content type and status code\<close>

definition binaryMimeTypes :: "string list" where
  "binaryMimeTypes = [''application/pdf'', ''application/p7s'']"

definition binaryMimeTypesPrefixes :: "string list" where
  "binaryMimeTypesPrefixes = [''image/'']"

text \<open>\<open>/^application\/json/.test(contentTypeHeader)\<close>; an absent or empty header is falsy.\<close>

definition isJsonContentType :: "(string \<rightharpoonup> string) \<Rightarrow> bool" where
  "isJsonContentType hs =
     (case hs ''content-type'' of
        None \<Rightarrow> False
      | Some contentTypeHeader \<Rightarrow>
          if contentTypeHeader = [] then False
          else prefix ''application/json'' contentTypeHeader)"

definition isBinaryContentType :: "(string \<rightharpoonup> string) \<Rightarrow> bool" where
  "isBinaryContentType hs =
     (case hs ''content-type'' of
        None \<Rightarrow> False
      | Some contentTypeHeader \<Rightarrow>
          if contentTypeHeader = [] then False
          else List.member binaryMimeTypes contentTypeHeader \<or>
               list_ex (\<lambda>mimeTypePrefix. prefix mimeTypePrefix contentTypeHeader)
                 binaryMimeTypesPrefixes)"

text \<open>\<open>Number.prototype.toString\<close> on a natural number: its decimal digits.\<close>

definition digitChar :: "nat \<Rightarrow> char" where
  "digitChar d = ''0123456789'' ! d"

fun toString :: "nat \<Rightarrow> string" where
  "toString n = (if n < 10 then [digitChar n] else toString (n div 10) @ [digitChar (n mod 10)])"

declare toString.simps [simp del]

definition isDigit :: "char \<Rightarrow> bool" where
  "isDigit c = List.member ''0123456789'' c"

text \<open>\<open>/2\d{2}/.test(s)\<close>: the pattern is not anchored, it may match anywhere in \<open>s\<close>.\<close>

fun test_2dd :: "string \<Rightarrow> bool" where
  "test_2dd (a # b # c # rest) =
     ((a = CHR ''2'' \<and> isDigit b \<and> isDigit c) \<or> test_2dd (b # c # rest))"
| "test_2dd _ = False"

text \<open>\<open>const { statusCode = '' } = res\<close>, then the pattern on \<open>statusCode.toString()\<close>.\<close>

definition isSuccessStatusCode :: "nat option \<Rightarrow> bool" where
  "isSuccessStatusCode sc =
     test_2dd (case sc of None \<Rightarrow> [] | Some n \<Rightarrow> toString n)"

text \<open>
  The \<open>try\<close> block of the \<open>end\<close> handler, run on a body with at least one chunk: the
  decoded body, or the error \<open>JSON.parse\<close> throws.
\<close>

definition decodeData :: "'j json_parse \<Rightarrow> (string \<rightharpoonup> string) \<Rightarrow> string list \<Rightarrow> js_error + 'j decoded" where
  "decodeData parse hs chunks =
     (if isJsonContentType hs then
        (case parse (concat chunks) of
           Inl err \<Rightarrow> Inl err
         | Inr parsedData \<Rightarrow> Inr (JsonData parsedData))
      else if isBinaryContentType hs then Inr (BinaryData (concat chunks))
      else Inr (TextData (concat chunks)))"

section \<open>TLS identity binder\<close>

text \<open>\<open>cert.fingerprint256 || cert.fingerprint\<close>: a missing or empty SHA-256 digest is falsy.\<close>

definition certFingerprint :: "cert \<Rightarrow> string" where
  "certFingerprint c =
     (case fingerprint256 c of
        None \<Rightarrow> fingerprint c
      | Some f \<Rightarrow> if f = [] then fingerprint c else f)"

text \<open>\<open>!hostFingerprint\<close>: the argument is \<open>undefined\<close> or the empty string.\<close>

definition noFingerprint :: "string option \<Rightarrow> bool" where
  "noFingerprint hostFingerprint = (hostFingerprint = None \<or> hostFingerprint = Some [])"

definition fingerprintMismatch :: "string \<Rightarrow> js_error" where
  "fingerprintMismatch peer = JsError ErrorC (''Fingerprint for host '' @ peer @ '' does not match'')"

text \<open>The callback \<open>HttpService\<close> builds (the two info lines written to the logger are left out).\<close>

definition HttpService_checkServerIdentity :: "string option \<Rightarrow> string \<Rightarrow> cert \<Rightarrow> js_error option" where
  "HttpService_checkServerIdentity hostFingerprint peer c =
     (if noFingerprint hostFingerprint \<or> hostFingerprint = Some (certFingerprint c) then None
      else Some (fingerprintMismatch peer))"

text \<open>The callback \<open>HttpClientService\<close> builds.\<close>

definition HttpClientService_checkServerIdentity :: "string option \<Rightarrow> string \<Rightarrow> cert \<Rightarrow> js_error option" where
  "HttpClientService_checkServerIdentity hostFingerprint peer c =
     (if hostFingerprint = Some (certFingerprint c) then None
      else Some (fingerprintMismatch peer))"

text \<open>
  The tail both services share. An https agent keeps its other options and gets the
  callback: that write goes to the agent object, not to the options object, so it
  succeeds on frozen options too. Anything else is replaced by
  \<open>new Agent({ checkServerIdentity })\<close>, a write to \<open>options.agent\<close> that throws (\<open>Inl\<close>)
  when the options are frozen.
\<close>

definition installCheck :: "(string \<Rightarrow> cert \<Rightarrow> js_error option) \<Rightarrow> options \<Rightarrow> js_error + options" where
  "installCheck check opts =
     (case agent opts of
        TlsAgent ao \<Rightarrow> Inr (opts\<lparr>agent := TlsAgent (ao\<lparr>checkServerIdentity := Some check\<rparr>)\<rparr>)
      | _ \<Rightarrow>
          if frozen opts then Inl (readOnlyError ''agent'')
          else Inr (opts\<lparr>agent := TlsAgent \<lparr>checkServerIdentity = Some check, keepAlive = None\<rparr>\<rparr>))"

definition HttpService_setCheckServerIdentity :: "options \<Rightarrow> string option \<Rightarrow> js_error + options" where
  "HttpService_setCheckServerIdentity opts hostFingerprint =
     (if noFingerprint hostFingerprint then Inr opts
      else installCheck (HttpService_checkServerIdentity hostFingerprint) opts)"

definition HttpClientService_setCheckServerIdentity :: "options \<Rightarrow> string option \<Rightarrow> js_error + options" where
  "HttpClientService_setCheckServerIdentity opts hostFingerprint =
     (if noFingerprint hostFingerprint then Inr opts
      else installCheck (HttpClientService_checkServerIdentity hostFingerprint) opts)"

text \<open>\<open>options.method = method\<close>.\<close>

definition setMethod :: "options \<Rightarrow> HttpMethod \<Rightarrow> js_error + options" where
  "setMethod opts m =
     (if frozen opts then Inl (readOnlyError ''method'')
      else Inr (opts\<lparr>method := Some (methodName m)\<rparr>))"

section \<open>Request execution\<close>

text \<open>\<open>cloneDeep(response)\<close> followed by \<open>res.data = res.data || undefined\<close>.\<close>

definition cloneResponse :: "incoming \<Rightarrow> 'j res" where
  "cloneResponse response = incoming.extend response \<lparr>data = None\<rparr>"

definition timeoutError :: js_error where
  "timeoutError = JsError RequestTimeoutErrorC ''Failed due timeout reason''"

definition abortError :: js_error where
  "abortError = JsError ServiceUnavailableErrorC ''Failed due abort reason''"

text \<open>
  What a handler of \<open>HttpService\<close> does: call \<open>resolve\<close> or \<open>reject\<close>, or count a retry and
  schedule \<open>performRequest\<close> again (\<open>setTimeout(performRequest, retryDelay)\<close>).
\<close>

datatype 'j step = Settle "'j settled" | Retry

text \<open>The \<open>end\<close> handler of \<open>HttpService\<close>, run when \<open>retries\<close> has the given value.\<close>

definition HttpService_onEnd :: "'j json_parse \<Rightarrow> int \<Rightarrow> nat \<Rightarrow> incoming \<Rightarrow> string list \<Rightarrow> 'j step" where
  "HttpService_onEnd parse maxRetries' retries' response chunks =
     (let r = cloneResponse response;
          isSuccess = isSuccessStatusCode (statusCode response)
      in if chunks = [] then
           (if \<not> isSuccess then
              (if int retries' < maxRetries' then Retry else Settle (Rejected (RejResponse r)))
            else Settle (Resolved r))
         else
           (case decodeData parse (headers response) chunks of
              Inl err \<Rightarrow> Settle (Rejected (RejError err))
            | Inr d \<Rightarrow>
                (if \<not> isSuccess then
                   (if int retries' < maxRetries' then Retry
                    else Settle (Rejected (RejResponse (r\<lparr>data := Some d\<rparr>))))
                 else Settle (Resolved (r\<lparr>data := Some d\<rparr>)))))"

text \<open>The four handlers of \<open>HttpService\<close>, by the event that fires them.\<close>

definition HttpService_handle :: "'j json_parse \<Rightarrow> int \<Rightarrow> nat \<Rightarrow> event \<Rightarrow> 'j step" where
  "HttpService_handle parse maxRetries' retries' ev =
     (case ev of
        End response chunks \<Rightarrow> HttpService_onEnd parse maxRetries' retries' response chunks
      | ErrorEvent err \<Rightarrow>
          if int retries' < maxRetries' then Retry else Settle (Rejected (RejError err))
      | TimeoutEvent \<Rightarrow>
          if int retries' < maxRetries' then Retry else Settle (Rejected (RejError timeoutError))
      | AbortEvent \<Rightarrow>
          if int retries' < maxRetries' then Retry else Settle (Rejected (RejError abortError)))"

text \<open>
  The state that the closures of one call of \<open>makeRequest\<close> share: the counter
  \<open>retries\<close>, the number of runs of \<open>performRequest\<close> so far, the number of timers set and
  not yet fired, and how the promise is settled, if it is.
\<close>

record 'j engine =
  retries :: nat
  started :: nat
  scheduled :: nat
  settled :: "'j settled option"

text \<open>\<open>resolve\<close> and \<open>reject\<close>: only the first call settles the promise.\<close>

definition settle :: "'j settled \<Rightarrow> 'j engine \<Rightarrow> 'j engine" where
  "settle p s = (case settled s of None \<Rightarrow> s\<lparr>settled := Some p\<rparr> | Some q \<Rightarrow> s)"

text \<open>\<open>retries++\<close> and \<open>setTimeout(performRequest, retryDelay)\<close>; the length of the delay is not modelled.\<close>

definition scheduleRetry :: "'j engine \<Rightarrow> 'j engine" where
  "scheduleRetry s = s\<lparr>retries := Suc (retries s), scheduled := Suc (scheduled s)\<rparr>"

text \<open>
  One run of \<open>performRequest\<close>: the request is created and sent, or the \<open>catch\<close> clause
  rejects with what was thrown.
\<close>

definition performRequest :: "js_error option \<Rightarrow> 'j engine \<Rightarrow> 'j engine" where
  "performRequest thrown s =
     (let s' = s\<lparr>started := Suc (started s)\<rparr>
      in case thrown of None \<Rightarrow> s' | Some err \<Rightarrow> settle (Rejected (RejError err)) s')"

text \<open>
  One item of the trace. The handlers run whether or not the promise is settled already.
  A \<open>Start\<close> with no timer pending cannot happen and is skipped.
\<close>

fun engineStep :: "'j json_parse \<Rightarrow> int \<Rightarrow> 'j engine \<Rightarrow> item \<Rightarrow> 'j engine" where
  "engineStep parse maxRetries' s (Emit ev) =
     (case HttpService_handle parse maxRetries' (retries s) ev of
        Settle p \<Rightarrow> settle p s
      | Retry \<Rightarrow> scheduleRetry s)"
| "engineStep parse maxRetries' s (Start thrown) =
     (if scheduled s = 0 then s
      else performRequest thrown (s\<lparr>scheduled := scheduled s - 1\<rparr>))"

text \<open>
  \<open>const { maxRetries = 0, retryDelay = 0, ...requestOptions } = options\<close>: the default
  stands in for an absent \<open>maxRetries\<close>.
\<close>

definition retryBudget :: "options \<Rightarrow> int" where
  "retryBudget opts = (case maxRetries opts of None \<Rightarrow> 0 | Some m \<Rightarrow> m)"

text \<open>
  \<open>makeRequest\<close> of \<open>HttpService\<close>: the executor of the promise runs \<open>performRequest\<close>
  once (\<open>first\<close> is what that run throws, if anything), then the trace unfolds.
\<close>

definition initialEngine :: "'j engine" where
  "initialEngine = \<lparr>retries = 0, started = 0, scheduled = 0, settled = None\<rparr>"

definition HttpService_makeRequest :: "'j json_parse \<Rightarrow> options \<Rightarrow> js_error option \<Rightarrow> item list \<Rightarrow> 'j engine" where
  "HttpService_makeRequest parse opts first trace =
     foldl (engineStep parse (retryBudget opts)) (performRequest first initialEngine) trace"

text \<open>
  \<open>to\<close> of await-to-js: \<open>promise.then(data => [null, data]).catch(err => [err, undefined])\<close>.
  The first slot is \<open>null\<close> and the second \<open>undefined\<close> where the pair has \<open>None\<close>.
\<close>

type_synonym 'j ResultTuple = "'j rejection option \<times> 'j res option"

fun to :: "'j settled \<Rightarrow> 'j ResultTuple" where
  "to (Resolved r) = (None, Some r)"
| "to (Rejected err) = (Some err, None)"

text \<open>
  How a public operation (an \<open>async\<close> method) completes: its promise is fulfilled with a
  tuple, it is rejected because the body of the method threw, or it stays pending
  because the promise of \<open>makeRequest\<close> is never settled.
\<close>

datatype 'a completion = Returned 'a | Raised js_error | Pending

definition awaitTo :: "'j settled option \<Rightarrow> 'j ResultTuple completion" where
  "awaitTo promise = (case promise of None \<Rightarrow> Pending | Some p \<Rightarrow> Returned (to p))"

text \<open>
  What a call leaves behind: the caller's options object after the call, the completion,
  the number of calls of the request function, the number of retries scheduled whose
  timer has not fired within the trace, and the value of \<open>retries\<close>.
\<close>

record 'j call =
  after :: options
  completion :: "'j ResultTuple completion"
  attempts :: nat
  timersPending :: nat
  retriesCounted :: nat

text \<open>A call that throws before any request is made.\<close>

definition raisedCall :: "options \<Rightarrow> js_error \<Rightarrow> 'j call" where
  "raisedCall opts err =
     \<lparr>after = opts, completion = Raised err, attempts = 0, timersPending = 0, retriesCounted = 0\<rparr>"

subsection \<open>HttpService\<close>

text \<open>
  The shape of the four public methods: set the method, bind the identity check, then
  \<open>to(makeRequest(options, body))\<close>. The two writes come before \<open>to\<close>: what they throw
  rejects the promise of the \<open>async\<close> method. The body is written to the request and does
  not reach the handlers.
\<close>

definition HttpService_call ::
  "'j json_parse \<Rightarrow> HttpMethod \<Rightarrow> options \<Rightarrow> string option \<Rightarrow> js_error option \<Rightarrow> item list \<Rightarrow> 'j call" where
  "HttpService_call parse m opts hostFingerprint first trace =
     (case setMethod opts m of
        Inl err \<Rightarrow> raisedCall opts err
      | Inr opts1 \<Rightarrow>
          (case HttpService_setCheckServerIdentity opts1 hostFingerprint of
             Inl err \<Rightarrow> raisedCall opts1 err
           | Inr opts2 \<Rightarrow>
               (let s = HttpService_makeRequest parse opts2 first trace
                in \<lparr>after = opts2, completion = awaitTo (settled s), attempts = started s,
                    timersPending = scheduled s, retriesCounted = retries s\<rparr>)))"

definition HttpService_get ::
  "'j json_parse \<Rightarrow> options \<Rightarrow> string option \<Rightarrow> js_error option \<Rightarrow> item list \<Rightarrow> 'j call" where
  "HttpService_get parse opts hostFingerprint first trace =
     HttpService_call parse GET opts hostFingerprint first trace"

definition HttpService_post ::
  "'j json_parse \<Rightarrow> options \<Rightarrow> string option \<Rightarrow> js_error option \<Rightarrow> item list \<Rightarrow> 'j call" where
  "HttpService_post parse opts hostFingerprint first trace =
     HttpService_call parse POST opts hostFingerprint first trace"

definition HttpService_delete ::
  "'j json_parse \<Rightarrow> options \<Rightarrow> string option \<Rightarrow> js_error option \<Rightarrow> item list \<Rightarrow> 'j call" where
  "HttpService_delete parse opts hostFingerprint first trace =
     HttpService_call parse DELETE opts hostFingerprint first trace"

definition HttpService_put ::
  "'j json_parse \<Rightarrow> options \<Rightarrow> string option \<Rightarrow> js_error option \<Rightarrow> item list \<Rightarrow> 'j call" where
  "HttpService_put parse opts hostFingerprint first trace =
     HttpService_call parse PUT opts hostFingerprint first trace"

subsection \<open>HttpClientService\<close>

text \<open>
  The fields of the platform's \<open>URL\<close> object that \<open>makeRequest\<close> reads. The constructor is a
  parameter of the model; \<open>None\<close> stands for the \<open>TypeError\<close> it throws on a string that
  does not parse.
\<close>

record url =
  protocol :: string
  hostname :: string
  urlPort :: string

type_synonym url_ctor = "string \<Rightarrow> url option"

text \<open>\<open>options?.host || ''\<close>.\<close>

fun hostOrEmpty :: "host_val \<Rightarrow> string" where
  "hostOrEmpty (HostStr s) = s"
| "hostOrEmpty _ = []"

text \<open>The host inside a template literal.\<close>

fun hostText :: "host_val \<Rightarrow> string" where
  "hostText (HostStr s) = s"
| "hostText HostNull = ''null''"
| "hostText HostUndefined = ''undefined''"

definition mustIncludeProtocol :: "host_val \<Rightarrow> js_error" where
  "mustIncludeProtocol h = JsError ErrorC (''Host \"'' @ hostText h @ ''\" must include protocol'')"

definition unknownProtocol :: "string \<Rightarrow> js_error" where
  "unknownProtocol proto = JsError ErrorC (''Unknown protocol, '' @ proto)"

text \<open>
  The \<open>end\<close> handler of \<open>HttpClientService\<close> and the handlers of the request: every one of
  them calls \<open>resolve\<close> or \<open>reject\<close>.
\<close>

definition HttpClientService_onEnd :: "'j json_parse \<Rightarrow> incoming \<Rightarrow> string list \<Rightarrow> 'j settled" where
  "HttpClientService_onEnd parse response chunks =
     (let r = cloneResponse response;
          isSuccess = isSuccessStatusCode (statusCode response)
      in if chunks = [] then
           (if isSuccess then Resolved r else Rejected (RejResponse r))
         else
           (case decodeData parse (headers response) chunks of
              Inl err \<Rightarrow> Rejected (RejError err)
            | Inr d \<Rightarrow>
                (if \<not> isSuccess then Rejected (RejResponse (r\<lparr>data := Some d\<rparr>))
                 else Resolved (r\<lparr>data := Some d\<rparr>))))"

definition HttpClientService_handle :: "'j json_parse \<Rightarrow> event \<Rightarrow> 'j settled" where
  "HttpClientService_handle parse ev =
     (case ev of
        End response chunks \<Rightarrow> HttpClientService_onEnd parse response chunks
      | ErrorEvent err \<Rightarrow> Rejected (RejError err)
      | TimeoutEvent \<Rightarrow> Rejected (RejError timeoutError)
      | AbortEvent \<Rightarrow> Rejected (RejError abortError))"

text \<open>
  The promise of \<open>HttpClientService\<close> over a trace: one request, the first call of
  \<open>resolve\<close> or \<open>reject\<close> settles it. The service sets no timer, so a \<open>Start\<close> cannot
  happen and is skipped.
\<close>

fun clientStep :: "'j json_parse \<Rightarrow> 'j settled option \<Rightarrow> item \<Rightarrow> 'j settled option" where
  "clientStep parse None (Emit ev) = Some (HttpClientService_handle parse ev)"
| "clientStep parse (Some p) (Emit ev) = Some p"
| "clientStep parse promise (Start thrown) = promise"

definition HttpClientService_promise :: "'j json_parse \<Rightarrow> js_error option \<Rightarrow> item list \<Rightarrow> 'j settled option" where
  "HttpClientService_promise parse first trace =
     foldl (clientStep parse)
       (case first of None \<Rightarrow> None | Some err \<Rightarrow> Some (Rejected (RejError err))) trace"

text \<open>
  \<open>makeRequest\<close> of \<open>HttpClientService\<close> is not an \<open>async\<close> function: it throws (\<open>Inl\<close>)
  before it builds the promise when the options are frozen, when the host does not
  parse or when the protocol is unknown. It returns the options object as it leaves it.
\<close>

definition HttpClientService_makeRequest ::
  "url_ctor \<Rightarrow> 'j json_parse \<Rightarrow> HttpMethod \<Rightarrow> options \<Rightarrow> js_error option \<Rightarrow> item list \<Rightarrow>
     options \<times> (js_error + 'j settled option) \<times> nat" where
  "HttpClientService_makeRequest URL parse m opts first trace =
     (if frozen opts then (opts, Inl (readOnlyError ''method''), 0)
      else
        (let opts1 = opts\<lparr>method := Some (methodName m)\<rparr> in
         case URL (hostOrEmpty (host opts1)) of
           None \<Rightarrow> (opts1, Inl (mustIncludeProtocol (host opts1)), 0)
         | Some parsedHost \<Rightarrow>
             (let opts2 = opts1\<lparr>host := HostStr (hostname parsedHost),
                                port := (if urlPort parsedHost \<noteq> [] then PortStr (urlPort parsedHost)
                                         else port opts1)\<rparr>
              in if protocol parsedHost = ''https:'' \<or> protocol parsedHost = ''http:''
                 then (opts2, Inr (HttpClientService_promise parse first trace), 1)
                 else (opts2, Inl (unknownProtocol (protocol parsedHost)), 0))))"

text \<open>
  The shape of the four public methods: bind the identity check, then
  \<open>to(makeRequest(method, options, body))\<close>. A throw of the binder or of \<open>makeRequest\<close>
  rejects the promise of the \<open>async\<close> method.
\<close>

definition HttpClientService_call ::
  "url_ctor \<Rightarrow> 'j json_parse \<Rightarrow> HttpMethod \<Rightarrow> options \<Rightarrow> string option \<Rightarrow> js_error option \<Rightarrow>
     item list \<Rightarrow> 'j call" where
  "HttpClientService_call URL parse m opts hostFingerprint first trace =
     (case HttpClientService_setCheckServerIdentity opts hostFingerprint of
        Inl err \<Rightarrow> raisedCall opts err
      | Inr opts1 \<Rightarrow>
          (let (opts2, made, n) = HttpClientService_makeRequest URL parse m opts1 first trace
           in \<lparr>after = opts2,
               completion = (case made of Inl err \<Rightarrow> Raised err | Inr promise \<Rightarrow> awaitTo promise),
               attempts = n, timersPending = 0, retriesCounted = 0\<rparr>))"

definition HttpClientService_get ::
  "url_ctor \<Rightarrow> 'j json_parse \<Rightarrow> options \<Rightarrow> string option \<Rightarrow> js_error option \<Rightarrow> item list \<Rightarrow> 'j call" where
  "HttpClientService_get URL parse opts hostFingerprint first trace =
     HttpClientService_call URL parse GET opts hostFingerprint first trace"

definition HttpClientService_post ::
  "url_ctor \<Rightarrow> 'j json_parse \<Rightarrow> options \<Rightarrow> string option \<Rightarrow> js_error option \<Rightarrow> item list \<Rightarrow> 'j call" where
  "HttpClientService_post URL parse opts hostFingerprint first trace =
     HttpClientService_call URL parse POST opts hostFingerprint first trace"

definition HttpClientService_put ::
  "url_ctor \<Rightarrow> 'j json_parse \<Rightarrow> options \<Rightarrow> string option \<Rightarrow> js_error option \<Rightarrow> item list \<Rightarrow> 'j call" where
  "HttpClientService_put URL parse opts hostFingerprint first trace =
     HttpClientService_call URL parse PUT opts hostFingerprint first trace"

definition HttpClientService_delete ::
  "url_ctor \<Rightarrow> 'j json_parse \<Rightarrow> options \<Rightarrow> string option \<Rightarrow> js_error option \<Rightarrow> item list \<Rightarrow> 'j call" where
  "HttpClientService_delete URL parse opts hostFingerprint first trace =
     HttpClientService_call URL parse DELETE opts hostFingerprint first trace"

section \<open>The platform functions on concrete inputs\<close>

text \<open>
  The theorems below hold for every \<open>URL\<close> constructor and every \<open>JSON.parse\<close>. To run the
  services on concrete inputs, \<open>URL_ctor\<close> follows the platform's URL parser (the WHATWG
  basic URL parser without a base URL) on absolute URLs with a plain host: the input is
  trimmed of leading and trailing C0 controls and spaces and of tabs and newlines; it
  must start with a letter, and the scheme runs over letters, digits, \<open>+\<close>, \<open>-\<close> and \<open>.\<close> up
  to a colon, else the parse fails; for \<open>http\<close> and \<open>https\<close> any run of slashes and
  backslashes is skipped and the authority runs to the next slash, backslash, \<open>?\<close> or \<open>#\<close>; the
  host must not be empty nor hold a forbidden code point and is lowercased; the port is
  a decimal number up to 65535, dropped when it is the scheme's default. Credentials,
  bracketed hosts, percent escapes, numeric and Punycode labels and the other special
  schemes are outside what it follows.
\<close>

definition asciiUpper :: string where
  "asciiUpper = ''ABCDEFGHIJKLMNOPQRSTUVWXYZ''"

definition asciiLower :: string where
  "asciiLower = ''abcdefghijklmnopqrstuvwxyz''"

definition toLower :: "char \<Rightarrow> char" where
  "toLower c = (case map_of (zip asciiUpper asciiLower) c of Some l \<Rightarrow> l | None \<Rightarrow> c)"

definition isAlpha :: "char \<Rightarrow> bool" where
  "isAlpha c = List.member (asciiUpper @ asciiLower) c"

definition isSchemeChar :: "char \<Rightarrow> bool" where
  "isSchemeChar c = (isAlpha c \<or> isDigit c \<or> List.member ''+-.'' c)"

definition isC0OrSpace :: "char \<Rightarrow> bool" where
  "isC0OrSpace c = ((of_char c :: nat) \<le> 32)"

definition isTabOrNewline :: "char \<Rightarrow> bool" where
  "isTabOrNewline c = List.member [CHR 0x09, CHR 0x0A, CHR 0x0D] c"

definition isSlash :: "char \<Rightarrow> bool" where
  "isSlash c = List.member [CHR ''/'', CHR 0x5C] c"

definition endsAuthority :: "bool \<Rightarrow> char \<Rightarrow> bool" where
  "endsAuthority special c =
     (List.member [CHR ''/'', CHR ''?'', CHR ''#''] c \<or> (special \<and> c = CHR 0x5C))"

definition isForbiddenHost :: "bool \<Rightarrow> char \<Rightarrow> bool" where
  "isForbiddenHost special c =
     (List.member [CHR 0x00, CHR 0x09, CHR 0x0A, CHR 0x0D, CHR 0x20, CHR ''#'', CHR ''/'',
                   CHR '':'', CHR ''<'', CHR ''>'', CHR ''?'', CHR ''@'', CHR ''['', CHR 0x5C,
                   CHR '']'', CHR ''^'', CHR ''|''] c \<or>
      (special \<and> ((of_char c :: nat) < 32 \<or> c = CHR ''%'' \<or> c = CHR 0x7F)))"

definition digitValue :: "char \<Rightarrow> nat" where
  "digitValue c = length (takeWhile (\<lambda>d. d \<noteq> c) ''0123456789'')"

definition natOfDigits :: "string \<Rightarrow> nat" where
  "natOfDigits ds = foldl (\<lambda>n c. 10 * n + digitValue c) 0 ds"

definition defaultPort :: "string \<Rightarrow> nat option" where
  "defaultPort scheme =
     (if scheme = ''http'' then Some 80 else if scheme = ''https'' then Some 443 else None)"

definition parsePort :: "string \<Rightarrow> string \<Rightarrow> string option" where
  "parsePort scheme ds =
     (if \<not> list_all isDigit ds then None
      else if ds = [] then Some []
      else if natOfDigits ds > 65535 then None
      else if Some (natOfDigits ds) = defaultPort scheme then Some []
      else Some (toString (natOfDigits ds)))"

definition parseAuthority :: "bool \<Rightarrow> string \<Rightarrow> string \<Rightarrow> url option" where
  "parseAuthority special scheme authority =
     (let h = takeWhile (\<lambda>c. c \<noteq> CHR '':'') authority;
          after_host = dropWhile (\<lambda>c. c \<noteq> CHR '':'') authority
      in if list_ex (isForbiddenHost special) h then None
         else if after_host = [] then
           (if special \<and> h = [] then None
            else Some \<lparr>protocol = scheme @ '':'',
                       hostname = (if special then map toLower h else h), urlPort = []\<rparr>)
         else if h = [] then None
         else (case parsePort scheme (tl after_host) of
                 None \<Rightarrow> None
               | Some p \<Rightarrow>
                   Some \<lparr>protocol = scheme @ '':'',
                         hostname = (if special then map toLower h else h), urlPort = p\<rparr>))"

definition URL_ctor :: url_ctor where
  "URL_ctor s =
     (let input = filter (\<lambda>c. \<not> isTabOrNewline c)
                    (rev (dropWhile isC0OrSpace (rev (dropWhile isC0OrSpace s))))
      in case input of
           [] \<Rightarrow> None
         | c # cs \<Rightarrow>
             if \<not> isAlpha c then None
             else
               (let scheme = map toLower (takeWhile isSchemeChar input)
                in case dropWhile isSchemeChar input of
                     [] \<Rightarrow> None
                   | d # remaining \<Rightarrow>
                       if d \<noteq> CHR '':'' then None
                       else if scheme = ''http'' \<or> scheme = ''https'' then
                         parseAuthority True scheme
                           (takeWhile (\<lambda>x. \<not> endsAuthority True x) (dropWhile isSlash remaining))
                       else if take 2 remaining = ''//'' then
                         parseAuthority False scheme
                           (takeWhile (\<lambda>x. \<not> endsAuthority False x) (drop 2 remaining))
                       else Some \<lparr>protocol = scheme @ '':'', hostname = [], urlPort = []\<rparr>))"

text \<open>
  \<open>JSON_parse_literal\<close> reads the three literal names of JSON and throws a \<open>SyntaxError\<close>
  on every other text; it stands for \<open>JSON.parse\<close> on the bodies of the closed examples
  (\<open>null\<close>, the empty text, and texts that are not JSON). The messages of its errors are
  shortened.
\<close>

datatype json_literal = JsonNull | JsonBool bool

definition JSON_parse_literal :: "json_literal json_parse" where
  "JSON_parse_literal s =
     (if s = ''null'' then Inr JsonNull
      else if s = ''true'' then Inr (JsonBool True)
      else if s = ''false'' then Inr (JsonBool False)
      else if s = [] then Inl (JsError SyntaxErrorC ''Unexpected end of JSON input'')
      else Inl (JsError SyntaxErrorC ''Unexpected token''))"

section \<open>Vocabulary of the properties\<close>

text \<open>The events of a trace, in order, and whether a run of \<open>performRequest\<close> throws.\<close>

fun emits :: "item list \<Rightarrow> event list" where
  "emits [] = []"
| "emits (Emit ev # trace) = ev # emits trace"
| "emits (Start thrown # trace) = emits trace"

fun throwing :: "item \<Rightarrow> bool" where
  "throwing (Start (Some err)) = True"
| "throwing x = False"

text \<open>
  A failure that \<open>HttpService\<close> answers with a retry while the budget lasts: an \<open>error\<close>,
  \<open>timeout\<close> or \<open>abort\<close> event, or a response whose status is not a success and whose
  body decodes (no chunk, a content type other than JSON, or a JSON text that parses).
\<close>

definition retryableFailure :: "'j json_parse \<Rightarrow> event \<Rightarrow> bool" where
  "retryableFailure parse ev =
     (case ev of
        End r chunks \<Rightarrow>
          \<not> isSuccessStatusCode (statusCode r) \<and>
          (chunks = [] \<or> \<not> isJsonContentType (headers r) \<or>
           (case parse (concat chunks) of Inl err \<Rightarrow> False | Inr v \<Rightarrow> True))
      | ErrorEvent err \<Rightarrow> True
      | TimeoutEvent \<Rightarrow> True
      | AbortEvent \<Rightarrow> True)"

text \<open>The invariant of the result tuple: exactly one of the two slots is set.\<close>

definition oneSlot :: "'j ResultTuple \<Rightarrow> bool" where
  "oneSlot t = ((fst t = None) \<noteq> (snd t = None))"

text \<open>
  The error slot carries a failure: the raw error of an \<open>error\<close> event, the typed error
  of a \<open>timeout\<close> or \<open>abort\<close> event, or the response with the status code of the one
  received.
\<close>

fun carriesFailure :: "'j ResultTuple completion \<Rightarrow> event \<Rightarrow> bool" where
  "carriesFailure (Returned (Some (RejError e), None)) (ErrorEvent err) = (e = err)"
| "carriesFailure (Returned (Some (RejError e), None)) TimeoutEvent = (e = timeoutError)"
| "carriesFailure (Returned (Some (RejError e), None)) AbortEvent = (e = abortError)"
| "carriesFailure (Returned (Some (RejResponse r), None)) (End response chunks) =
     (statusCode r = statusCode response)"
| "carriesFailure c ev = False"

text \<open>Inputs of the closed examples.\<close>

definition exampleOptions :: options where
  "exampleOptions =
     \<lparr>host = HostStr ''http://example.com'', port = PortNum 8080, method = Some ''GET'',
      agent = AgentUndefined, maxRetries = Some 0, retryDelay = None, frozen = False\<rparr>"

definition frozenOptions :: options where
  "frozenOptions =
     \<lparr>host = HostStr ''http://example.com'', port = PortUndefined, method = None,
      agent = AgentUndefined, maxRetries = None, retryDelay = None, frozen = True\<rparr>"

definition exampleUrl :: url where
  "exampleUrl = \<lparr>protocol = ''http:'', hostname = ''example.com'', urlPort = []\<rparr>"

definition retryingOptions :: options where
  "retryingOptions =
     \<lparr>host = HostStr ''http://example.com'', port = PortUndefined, method = None,
      agent = AgentUndefined, maxRetries = Some 2, retryDelay = Some 50, frozen = False\<rparr>"

definition serverError :: incoming where
  "serverError =
     \<lparr>statusCode = Some 503, statusMessage = Some ''Service Unavailable'',
      headers = [''content-type'' \<mapsto> ''text/plain'']\<rparr>"

definition noContent :: incoming where
  "noContent = \<lparr>statusCode = Some 204, statusMessage = Some ''No Content'', headers = Map.empty\<rparr>"

definition notFound :: incoming where
  "notFound = \<lparr>statusCode = Some 404, statusMessage = Some ''Not Found'', headers = Map.empty\<rparr>"


definition brokenJsonError :: incoming where
  "brokenJsonError =
     \<lparr>statusCode = Some 500, statusMessage = None,
      headers = [''content-type'' \<mapsto> ''application/json'']\<rparr>"

definition invalidHostOptions :: options where
  "invalidHostOptions =
     \<lparr>host = HostStr ''invalid-host'', port = PortUndefined, method = None,
      agent = AgentUndefined, maxRetries = Some 2, retryDelay = None, frozen = False\<rparr>"

definition unknownProtocolOptions :: options where
  "unknownProtocolOptions =
     \<lparr>host = HostStr ''httpz://example.com'', port = PortUndefined, method = None,
      agent = AgentUndefined, maxRetries = Some 2, retryDelay = None, frozen = False\<rparr>"

definition pinnedCert :: cert where
  "pinnedCert = \<lparr>fingerprint256 = Some ''AB:CD'', fingerprint = ''12:34''\<rparr>"

definition legacyCert :: cert where
  "legacyCert = \<lparr>fingerprint256 = None, fingerprint = ''12:34''\<rparr>"

definition upperCaseJson :: "string \<rightharpoonup> string" where
  "upperCaseJson = [''content-type'' \<mapsto> ''Application/JSON'']"

definition keepAliveAgentOptions :: options where
  "keepAliveAgentOptions =
     \<lparr>host = HostStr ''https://security-example.com'', port = PortUndefined, method = None,
      agent = TlsAgent \<lparr>checkServerIdentity = None, keepAlive = Some True\<rparr>,
      maxRetries = None, retryDelay = None, frozen = False\<rparr>"

definition oneRetryOptions :: options where
  "oneRetryOptions =
     \<lparr>host = HostStr ''http://example.com'', port = PortUndefined, method = None,
      agent = AgentUndefined, maxRetries = Some 1, retryDelay = None, frozen = False\<rparr>"

definition okText :: incoming where
  "okText =
     \<lparr>statusCode = Some 200, statusMessage = Some ''OK'',
      headers = [''content-type'' \<mapsto> ''text/plain'']\<rparr>"

section \<open>Status codes of three digits\<close>

lemma digitChar_isDigit: "d < 10 \<Longrightarrow> isDigit (digitChar d)"
proof -
  assume "d < 10"
  then have "d \<in> {0,1,2,3,4,5,6,7,8,9}" by auto
  then show ?thesis by (auto simp: isDigit_def digitChar_def)
qed

lemma digitChar_two: "d < 10 \<Longrightarrow> (digitChar d = CHR ''2'') = (d = 2)"
proof -
  assume "d < 10"
  then have "d \<in> {0,1,2,3,4,5,6,7,8,9}" by auto
  then show ?thesis by (auto simp: digitChar_def)
qed

lemma toString_1: "n < 10 \<Longrightarrow> toString n = [digitChar n]"
  by (subst toString.simps) simp

lemma toString_2: "10 \<le> n \<Longrightarrow> n < 100 \<Longrightarrow> toString n = [digitChar (n div 10), digitChar (n mod 10)]"
  by (subst toString.simps) (simp add: toString_1)

lemma toString_3:
  "100 \<le> n \<Longrightarrow> n < 1000 \<Longrightarrow>
   toString n = [digitChar (n div 100), digitChar (n div 10 mod 10), digitChar (n mod 10)]"
  by (subst toString.simps) (simp add: toString_2 div_mult2_eq[symmetric])

lemma isSuccessStatusCode_three_digits:
  assumes "n < 1000"
  shows "isSuccessStatusCode (Some n) = (200 \<le> n \<and> n \<le> 299)"
proof -
  consider "n < 10" | "10 \<le> n" "n < 100" | "100 \<le> n" using assms by linarith
  then show ?thesis
  proof cases
    case 1
    then show ?thesis by (simp add: isSuccessStatusCode_def toString_1)
  next
    case 2
    then show ?thesis by (simp add: isSuccessStatusCode_def toString_2)
  next
    case 3
    have d: "n div 100 < 10" "n div 10 mod 10 < 10" "n mod 10 < 10" using assms by auto
    have "(n div 100 = 2) = (200 \<le> n \<and> n \<le> 299)" by auto
    then show ?thesis using 3 assms d
      by (simp add: isSuccessStatusCode_def toString_3 digitChar_isDigit digitChar_two)
  qed
qed

section \<open>Content types and decoding\<close>


lemma isBinaryContentType_iff:
  "hs ''content-type'' = Some ct \<Longrightarrow>
   isBinaryContentType hs =
     (ct = ''application/pdf'' \<or> ct = ''application/p7s'' \<or> prefix ''image/'' ct)"
  by (auto simp: isBinaryContentType_def binaryMimeTypes_def binaryMimeTypesPrefixes_def)

lemma not_json_and_binary:
  "isBinaryContentType hs \<Longrightarrow> \<not> isJsonContentType hs"
  by (auto simp: isBinaryContentType_def isJsonContentType_def binaryMimeTypes_def
                 binaryMimeTypesPrefixes_def prefix_def
           split: option.splits if_splits)

lemma decodeData_json:
  "hs ''content-type'' = Some ct \<Longrightarrow> prefix ''application/json'' ct \<Longrightarrow>
   decodeData parse hs chunks =
     (case parse (concat chunks) of Inl err \<Rightarrow> Inl err | Inr v \<Rightarrow> Inr (JsonData v))"
  by (auto simp: decodeData_def isJsonContentType_def)

lemma decodeData_binary:
  assumes "hs ''content-type'' = Some ct"
    and "ct = ''application/pdf'' \<or> ct = ''application/p7s'' \<or> prefix ''image/'' ct"
  shows "decodeData parse hs chunks = Inr (BinaryData (concat chunks))"
proof -
  have b: "isBinaryContentType hs" using assms by (simp add: isBinaryContentType_iff)
  then have "\<not> isJsonContentType hs" by (rule not_json_and_binary)
  with b show ?thesis by (simp add: decodeData_def)
qed

lemma decodeData_text:
  assumes "hs ''content-type'' = None \<or>
      (\<exists>ct. hs ''content-type'' = Some ct \<and> \<not> prefix ''application/json'' ct \<and>
            ct \<noteq> ''application/pdf'' \<and> ct \<noteq> ''application/p7s'' \<and> \<not> prefix ''image/'' ct)"
  shows "decodeData parse hs chunks = Inr (TextData (concat chunks))"
  using assms
  by (auto simp: decodeData_def isJsonContentType_def isBinaryContentType_iff)
     (simp add: isBinaryContentType_def)

section \<open>The handlers\<close>

lemma cloneResponse_simps:
  "statusCode (cloneResponse r) = statusCode r"
  "statusMessage (cloneResponse r) = statusMessage r"
  "headers (cloneResponse r) = headers r"
  "data (cloneResponse r) = None"
  by (simp_all add: cloneResponse_def incoming.defs)

lemma client_empty_body:
  "HttpClientService_handle parse (End r []) =
     (if isSuccessStatusCode (statusCode r) then Resolved (cloneResponse r)
      else Rejected (RejResponse (cloneResponse r)))"
  by (simp add: HttpClientService_handle_def HttpClientService_onEnd_def)

lemma legacy_empty_body_success:
  "isSuccessStatusCode (statusCode r) \<Longrightarrow>
   HttpService_handle parse m k (End r []) = Settle (Resolved (cloneResponse r))"
  by (simp add: HttpService_handle_def HttpService_onEnd_def)


lemma decoded_is_data:
  assumes "chunks \<noteq> []" and "isSuccessStatusCode (statusCode r)"
    and "decodeData parse (headers r) chunks = Inr d"
  shows "HttpService_handle parse m k (End r chunks) =
           Settle (Resolved ((cloneResponse r)\<lparr>data := Some d\<rparr>))"
    and "HttpClientService_handle parse (End r chunks) =
           Resolved ((cloneResponse r)\<lparr>data := Some d\<rparr>)"
  using assms
  by (simp_all add: HttpService_handle_def HttpService_onEnd_def HttpClientService_handle_def
        HttpClientService_onEnd_def)

lemma handle_spent:
  "m \<le> int r \<Longrightarrow> HttpService_handle parse m r ev = Settle (HttpClientService_handle parse ev)"
  by (auto simp: HttpService_handle_def HttpService_onEnd_def HttpClientService_handle_def
                 HttpClientService_onEnd_def Let_def
           split: event.splits sum.splits)

lemma handle_retryable:
  "retryableFailure parse ev \<Longrightarrow> int r < m \<Longrightarrow> HttpService_handle parse m r ev = Retry"
  by (auto simp: retryableFailure_def HttpService_handle_def HttpService_onEnd_def Let_def
                 decodeData_def
           split: event.splits sum.splits)

lemma handle_Retry:
  "HttpService_handle parse m r ev = Retry \<Longrightarrow> int r < m"
  by (auto simp: HttpService_handle_def HttpService_onEnd_def Let_def
           split: event.splits sum.splits if_splits)

lemma client_handle_carries:
  "retryableFailure parse ev \<Longrightarrow>
   carriesFailure (Returned (to (HttpClientService_handle parse ev))) ev"
  by (auto simp: retryableFailure_def HttpClientService_handle_def HttpClientService_onEnd_def
                 decodeData_def Let_def cloneResponse_simps
           split: event.splits sum.splits)

lemma oneSlot_to: "oneSlot (to p)"
  by (cases p) (simp_all add: oneSlot_def)

section \<open>The promise over a trace\<close>

text \<open>
  Settlement is final, the counters obey \<open>started + scheduled = retries + 1\<close>, once
  the budget is spent it stays spent, and event number \<open>maxRetries + 1\<close> at the latest
  settles the promise: each event either settles it or consumes one retry.
\<close>

lemma settle_settled: "settled (settle p s) \<noteq> None"
  by (simp add: settle_def split: option.splits)

lemma engineStep_sticky:
  "settled s = Some p \<Longrightarrow> settled (engineStep parse m s x) = Some p"
  by (cases x)
     (auto simp: settle_def scheduleRetry_def performRequest_def Let_def
           split: step.splits option.splits)

lemma run_sticky:
  "settled s = Some p \<Longrightarrow> settled (foldl (engineStep parse m) s trace) = Some p"
  by (induction trace arbitrary: s) (simp_all add: engineStep_sticky)

lemma engineStep_count:
  "started s + scheduled s = Suc (retries s) \<Longrightarrow>
   started (engineStep parse m s x) + scheduled (engineStep parse m s x) =
     Suc (retries (engineStep parse m s x))"
  by (cases x)
     (auto simp: settle_def scheduleRetry_def performRequest_def Let_def
           split: step.splits option.splits)

lemma run_count:
  "started s + scheduled s = Suc (retries s) \<Longrightarrow>
   started (foldl (engineStep parse m) s trace) + scheduled (foldl (engineStep parse m) s trace) =
     Suc (retries (foldl (engineStep parse m) s trace))"
  by (induction trace arbitrary: s) (simp_all add: engineStep_count)

lemma engineStep_spent:
  "m \<le> int (retries s) \<Longrightarrow> retries (engineStep parse m s x) = retries s"
  by (cases x)
     (auto simp: handle_spent settle_def performRequest_def Let_def split: option.splits)

lemma run_spent:
  "m \<le> int (retries s) \<Longrightarrow> retries (foldl (engineStep parse m) s trace) = retries s"
  by (induction trace arbitrary: s) (simp_all add: engineStep_spent)

lemma engineStep_idle:
  assumes "m \<le> int (retries s)" and "scheduled s = 0"
  shows "started (engineStep parse m s x) = started s"
    and "scheduled (engineStep parse m s x) = 0"
  using assms
  by (cases x; auto simp: handle_spent settle_def split: option.splits)+

lemma run_idle:
  assumes "m \<le> int (retries s)" and "scheduled s = 0"
  shows "started (foldl (engineStep parse m) s trace) = started s \<and>
         scheduled (foldl (engineStep parse m) s trace) = 0 \<and>
         retries (foldl (engineStep parse m) s trace) = retries s"
  using assms
proof (induction trace arbitrary: s)
  case Nil
  then show ?case by simp
next
  case (Cons x trace)
  have "m \<le> int (retries (engineStep parse m s x))" "scheduled (engineStep parse m s x) = 0"
    using Cons.prems by (simp_all add: engineStep_spent engineStep_idle)
  from Cons.IH [OF this] show ?case
    using Cons.prems by (simp add: engineStep_spent engineStep_idle)
qed

lemma run_must_settle:
  "nat (m - int (retries s)) < length (emits trace) \<Longrightarrow>
   settled (foldl (engineStep parse m) s trace) \<noteq> None"
proof (induction trace arbitrary: s)
  case Nil
  then show ?case by simp
next
  case (Cons x trace)
  show ?case
  proof (cases x)
    case (Emit ev)
    show ?thesis
    proof (cases "HttpService_handle parse m (retries s) ev")
      case (Settle p)
      then obtain q where "settled (engineStep parse m s x) = Some q"
        using Emit by (cases "settled s") (auto simp: settle_def)
      then show ?thesis by (simp add: run_sticky)
    next
      case Retry
      then have lt: "int (retries s) < m"
        by (rule handle_Retry)
      have "nat (m - int (retries (engineStep parse m s x))) < length (emits trace)"
        using Cons.prems Emit Retry lt by (simp add: scheduleRetry_def)
      from Cons.IH [OF this] show ?thesis by simp
    qed
  next
    case (Start thrown)
    have "retries (engineStep parse m s x) = retries s"
      using Start by (auto simp: performRequest_def settle_def Let_def split: option.splits)
    then have "nat (m - int (retries (engineStep parse m s x))) < length (emits trace)"
      using Cons.prems Start by simp
    from Cons.IH [OF this] show ?thesis by simp
  qed
qed

lemma engineStep_settles:
  assumes "settled s = None" and "HttpService_handle parse m (retries s) ev = Settle p"
  shows "settled (foldl (engineStep parse m) (engineStep parse m s (Emit ev)) rest) = Some p"
    and "retries (engineStep parse m s (Emit ev)) = retries s"
    and "started (engineStep parse m s (Emit ev)) = started s"
    and "scheduled (engineStep parse m s (Emit ev)) = scheduled s"
proof -
  have "settled (engineStep parse m s (Emit ev)) = Some p"
    using assms by (simp add: settle_def)
  then show "settled (foldl (engineStep parse m) (engineStep parse m s (Emit ev)) rest) = Some p"
    by (rule run_sticky)
  show "retries (engineStep parse m s (Emit ev)) = retries s"
    and "started (engineStep parse m s (Emit ev)) = started s"
    and "scheduled (engineStep parse m s (Emit ev)) = scheduled s"
    using assms by (simp_all add: settle_def)
qed

lemma run_failures:
  assumes "\<forall>ev\<in>set (emits trace). retryableFailure parse ev"
    and "\<not> list_ex throwing trace"
    and "settled s = None" and "retries s \<le> N"
  shows "retries (foldl (engineStep parse (int N)) s trace) =
           min N (retries s + length (emits trace)) \<and>
         settled (foldl (engineStep parse (int N)) s trace) =
           (if N < retries s + length (emits trace)
            then Some (HttpClientService_handle parse (emits trace ! (N - retries s)))
            else None)"
  using assms
proof (induction trace arbitrary: s)
  case Nil
  then show ?case by simp
next
  case (Cons x trace)
  show ?case
  proof (cases x)
    case (Emit ev)
    have ev: "retryableFailure parse ev" using Cons.prems(1) Emit by simp
    show ?thesis
    proof (cases "retries s < N")
      case True
      then have step: "engineStep parse (int N) s x = scheduleRetry s"
        using Emit ev by (simp add: handle_retryable)
      have "retries (foldl (engineStep parse (int N)) (scheduleRetry s) trace) =
              min N (retries (scheduleRetry s) + length (emits trace)) \<and>
            settled (foldl (engineStep parse (int N)) (scheduleRetry s) trace) =
              (if N < retries (scheduleRetry s) + length (emits trace)
               then Some (HttpClientService_handle parse
                            (emits trace ! (N - retries (scheduleRetry s))))
               else None)"
        using Cons.prems True Emit by (intro Cons.IH) (auto simp: scheduleRetry_def)
      moreover have "(ev # emits trace) ! (N - retries s) = emits trace ! (N - Suc (retries s))"
        using True by (simp add: nth_Cons') 
      ultimately show ?thesis
        using Emit step by (simp add: scheduleRetry_def)
    next
      case False
      then have eq: "retries s = N" using Cons.prems(4) by simp
      then have h: "HttpService_handle parse (int N) (retries s) ev =
          Settle (HttpClientService_handle parse ev)"
        by (simp add: handle_spent)
      have "settled (foldl (engineStep parse (int N)) (engineStep parse (int N) s (Emit ev)) trace) =
          Some (HttpClientService_handle parse ev)"
        using Cons.prems(3) h by (rule engineStep_settles(1))
      moreover have "retries (foldl (engineStep parse (int N)) (engineStep parse (int N) s (Emit ev)) trace) = N"
        using eq engineStep_settles(2) [OF Cons.prems(3) h]
        by (simp add: run_spent)
      ultimately show ?thesis using Emit eq by simp
    qed
  next
    case (Start thrown)
    then have none: "thrown = None" using Cons.prems(2) by (cases thrown) simp_all
    have s': "settled (engineStep parse (int N) s x) = None"
      "retries (engineStep parse (int N) s x) = retries s"
      using Start none Cons.prems(3) by (simp_all add: performRequest_def)
    have "retries (foldl (engineStep parse (int N)) (engineStep parse (int N) s x) trace) =
            min N (retries (engineStep parse (int N) s x) + length (emits trace)) \<and>
          settled (foldl (engineStep parse (int N)) (engineStep parse (int N) s x) trace) =
            (if N < retries (engineStep parse (int N) s x) + length (emits trace)
             then Some (HttpClientService_handle parse
                          (emits trace ! (N - retries (engineStep parse (int N) s x))))
             else None)"
      using Cons.prems Start s' by (intro Cons.IH) auto
    then show ?thesis using Start s' by simp
  qed
qed

lemma clientStep_sticky:
  "foldl (clientStep parse) (Some p) trace = Some p"
proof (induction trace)
  case Nil
  then show ?case by simp
next
  case (Cons x trace)
  then show ?case by (cases x) simp_all
qed

lemma client_promise_first:
  "foldl (clientStep parse) None trace =
     (case emits trace of [] \<Rightarrow> None | ev # evs \<Rightarrow> Some (HttpClientService_handle parse ev))"
proof (induction trace)
  case Nil
  then show ?case by simp
next
  case (Cons x trace)
  then show ?case by (cases x) (simp_all add: clientStep_sticky)
qed

lemma client_promise_append:
  "foldl (clientStep parse) promise (pre @ Emit ev # rest) =
     (case foldl (clientStep parse) promise pre of
        None \<Rightarrow> Some (HttpClientService_handle parse ev)
      | Some p \<Rightarrow> Some p)"
  by (cases "foldl (clientStep parse) promise pre") (simp_all add: clientStep_sticky)

section \<open>The identity binder\<close>

lemma installCheck_writable:
  "\<not> frozen opts \<Longrightarrow>
   installCheck check opts =
     Inr (opts\<lparr>agent := TlsAgent \<lparr>checkServerIdentity = Some check,
                                    keepAlive = (case agent opts of TlsAgent a \<Rightarrow> keepAlive a
                                                 | _ \<Rightarrow> None)\<rparr>\<rparr>)"
  by (simp add: installCheck_def split: agent_val.splits)

lemma installCheck_agent:
  "agent opts = TlsAgent a \<Longrightarrow>
   installCheck check opts =
     Inr (opts\<lparr>agent := TlsAgent \<lparr>checkServerIdentity = Some check, keepAlive = keepAlive a\<rparr>\<rparr>)"
  by (simp add: installCheck_def)

lemma installCheck_frozen:
  "frozen opts \<Longrightarrow> \<forall>a. agent opts \<noteq> TlsAgent a \<Longrightarrow>
   installCheck check opts = Inl (readOnlyError ''agent'')"
  by (simp add: installCheck_def split: agent_val.splits)

lemma setCheckServerIdentity_absent:
  assumes "fp = None \<or> fp = Some []"
  shows "HttpService_setCheckServerIdentity opts fp = Inr opts"
    and "HttpClientService_setCheckServerIdentity opts fp = Inr opts"
  using assms
  by (auto simp: HttpService_setCheckServerIdentity_def
        HttpClientService_setCheckServerIdentity_def noFingerprint_def)

lemma setCheckServerIdentity_present:
  assumes "fp = Some d" and "d \<noteq> []"
  shows "HttpService_setCheckServerIdentity opts fp =
           installCheck (HttpService_checkServerIdentity fp) opts"
    and "HttpClientService_setCheckServerIdentity opts fp =
           installCheck (HttpClientService_checkServerIdentity fp) opts"
  using assms
  by (simp_all add: HttpService_setCheckServerIdentity_def
        HttpClientService_setCheckServerIdentity_def noFingerprint_def)

lemma binder_writable:
  assumes "\<not> frozen opts"
  shows "\<exists>opts'. HttpService_setCheckServerIdentity opts fp = Inr opts' \<and>
           retryBudget opts' = retryBudget opts \<and> host opts' = host opts \<and>
           port opts' = port opts \<and> method opts' = method opts \<and> frozen opts' = frozen opts"
    and "\<exists>opts'. HttpClientService_setCheckServerIdentity opts fp = Inr opts' \<and>
           retryBudget opts' = retryBudget opts \<and> host opts' = host opts \<and>
           port opts' = port opts \<and> method opts' = method opts \<and> frozen opts' = frozen opts"
  using assms
  by (auto simp: HttpService_setCheckServerIdentity_def
        HttpClientService_setCheckServerIdentity_def installCheck_writable retryBudget_def)

lemma client_binder_any:
  "(case HttpClientService_setCheckServerIdentity opts fp of
      Inl err \<Rightarrow> frozen opts \<and> err = readOnlyError ''agent''
    | Inr opts' \<Rightarrow> host opts' = host opts \<and> port opts' = port opts \<and>
                   frozen opts' = frozen opts \<and> method opts' = method opts)"
  by (auto simp: HttpClientService_setCheckServerIdentity_def installCheck_def
           split: agent_val.splits sum.splits)

lemma binder_cases:
  assumes "b \<in> {HttpService_setCheckServerIdentity, HttpClientService_setCheckServerIdentity}"
  obtains "b = HttpService_setCheckServerIdentity" | "b = HttpClientService_setCheckServerIdentity"
  using assms by auto

lemma checkServerIdentity_pinned:
  assumes "d \<noteq> []"
  shows "HttpService_checkServerIdentity (Some d) peer c =
           (if d = certFingerprint c then None else Some (fingerprintMismatch peer))"
    and "HttpClientService_checkServerIdentity (Some d) peer c =
           (if d = certFingerprint c then None else Some (fingerprintMismatch peer))"
  using assms
  by (auto simp: HttpService_checkServerIdentity_def HttpClientService_checkServerIdentity_def
                 noFingerprint_def)

lemma installCheck_bound:
  "\<not> frozen opts \<or> (\<exists>a. agent opts = TlsAgent a) \<Longrightarrow>
   installCheck check opts =
     Inr (opts\<lparr>agent := TlsAgent \<lparr>checkServerIdentity = Some check,
                                    keepAlive = (case agent opts of TlsAgent a \<Rightarrow> keepAlive a
                                                 | _ \<Rightarrow> None)\<rparr>\<rparr>)"
  by (auto simp: installCheck_def split: agent_val.splits)

section \<open>The public operations\<close>

lemmas HttpService_ops =
  HttpService_get_def HttpService_post_def HttpService_put_def HttpService_delete_def

lemmas HttpClientService_ops =
  HttpClientService_get_def HttpClientService_post_def HttpClientService_put_def
  HttpClientService_delete_def

lemma HttpService_op_cases:
  assumes "f \<in> {HttpService_get, HttpService_post, HttpService_put, HttpService_delete}"
  obtains m where "f = (\<lambda>parse. HttpService_call parse m)"
  using assms by (auto simp: HttpService_ops fun_eq_iff)

lemma HttpClientService_op_cases:
  assumes "g \<in> {HttpClientService_get, HttpClientService_post, HttpClientService_put,
                 HttpClientService_delete}"
  obtains m where "g = (\<lambda>URL parse. HttpClientService_call URL parse m)"
  using assms by (auto simp: HttpClientService_ops fun_eq_iff)

lemma HttpService_op_method_cases:
  assumes "(f, m) \<in> {(HttpService_get, GET), (HttpService_post, POST), (HttpService_put, PUT),
                       (HttpService_delete, DELETE)}"
  shows "f = (\<lambda>parse. HttpService_call parse m)"
  using assms by (auto simp: HttpService_ops fun_eq_iff)

lemma HttpClientService_op_method_cases:
  assumes "(g, m) \<in> {(HttpClientService_get, GET), (HttpClientService_post, POST),
                       (HttpClientService_put, PUT), (HttpClientService_delete, DELETE)}"
  shows "g = (\<lambda>URL parse. HttpClientService_call URL parse m)"
  using assms by (auto simp: HttpClientService_ops fun_eq_iff)

lemma makeRequest_budget:
  "retryBudget opts' = retryBudget opts \<Longrightarrow>
   HttpService_makeRequest parse opts' first trace = HttpService_makeRequest parse opts first trace"
  by (simp add: HttpService_makeRequest_def)

lemma HttpService_call_writable:
  assumes "\<not> frozen opts"
  shows "completion (HttpService_call parse m opts fp first trace) =
           awaitTo (settled (HttpService_makeRequest parse opts first trace))"
    and "attempts (HttpService_call parse m opts fp first trace) =
           started (HttpService_makeRequest parse opts first trace)"
    and "timersPending (HttpService_call parse m opts fp first trace) =
           scheduled (HttpService_makeRequest parse opts first trace)"
    and "retriesCounted (HttpService_call parse m opts fp first trace) =
           retries (HttpService_makeRequest parse opts first trace)"
proof -
  let ?o1 = "opts\<lparr>method := Some (methodName m)\<rparr>"
  have w: "\<not> frozen ?o1" using assms by simp
  obtain opts2 where b: "HttpService_setCheckServerIdentity ?o1 fp = Inr opts2"
    and r: "retryBudget opts2 = retryBudget ?o1"
    using binder_writable(1) [OF w] by blast
  have "retryBudget ?o1 = retryBudget opts" by (simp add: retryBudget_def)
  with r have "HttpService_makeRequest parse opts2 first trace =
      HttpService_makeRequest parse opts first trace"
    by (intro makeRequest_budget) simp
  then show "completion (HttpService_call parse m opts fp first trace) =
           awaitTo (settled (HttpService_makeRequest parse opts first trace))"
    and "attempts (HttpService_call parse m opts fp first trace) =
           started (HttpService_makeRequest parse opts first trace)"
    and "timersPending (HttpService_call parse m opts fp first trace) =
           scheduled (HttpService_makeRequest parse opts first trace)"
    and "retriesCounted (HttpService_call parse m opts fp first trace) =
           retries (HttpService_makeRequest parse opts first trace)"
    using assms b by (simp_all add: HttpService_call_def setMethod_def Let_def)
qed

lemma HttpService_call_frozen:
  "frozen opts \<Longrightarrow>
   HttpService_call parse m opts fp first trace = raisedCall opts (readOnlyError ''method'')"
  by (simp add: HttpService_call_def setMethod_def)

lemma HttpClientService_call_frozen:
  assumes "frozen opts"
  shows "\<exists>prop. completion (HttpClientService_call URL parse m opts fp first trace) =
           Raised (readOnlyError prop)"
    and "attempts (HttpClientService_call URL parse m opts fp first trace) = 0"
  using assms client_binder_any [of opts fp]
  by (auto simp: HttpClientService_call_def HttpClientService_makeRequest_def raisedCall_def
           split: sum.splits)

lemma HttpClientService_call_valid:
  assumes "\<not> frozen opts" and "URL (hostOrEmpty (host opts)) = Some u"
    and "protocol u = ''http:'' \<or> protocol u = ''https:''"
  shows "completion (HttpClientService_call URL parse m opts fp first trace) =
           awaitTo (HttpClientService_promise parse first trace)"
    and "attempts (HttpClientService_call URL parse m opts fp first trace) = 1"
    and "timersPending (HttpClientService_call URL parse m opts fp first trace) = 0"
  using assms client_binder_any [of opts fp]
  by (auto simp: HttpClientService_call_def HttpClientService_makeRequest_def Let_def
           split: sum.splits)

lemma HttpClientService_call_no_parse:
  assumes "\<not> frozen opts" and "URL (hostOrEmpty (host opts)) = None"
  shows "completion (HttpClientService_call URL parse m opts fp first trace) =
           Raised (mustIncludeProtocol (host opts))"
    and "attempts (HttpClientService_call URL parse m opts fp first trace) = 0"
  using assms client_binder_any [of opts fp]
  by (auto simp: HttpClientService_call_def HttpClientService_makeRequest_def Let_def
           split: sum.splits)

lemma HttpClientService_call_unknown:
  assumes "\<not> frozen opts" and "URL (hostOrEmpty (host opts)) = Some u"
    and "protocol u \<noteq> ''http:''" and "protocol u \<noteq> ''https:''"
  shows "completion (HttpClientService_call URL parse m opts fp first trace) =
           Raised (unknownProtocol (protocol u))"
    and "attempts (HttpClientService_call URL parse m opts fp first trace) = 0"
  using assms client_binder_any [of opts fp]
  by (auto simp: HttpClientService_call_def HttpClientService_makeRequest_def Let_def
           split: sum.splits)

lemma HttpClientService_call_invalid_attempts:
  assumes "URL (hostOrEmpty (host opts)) = None \<or>
      (\<exists>u. URL (hostOrEmpty (host opts)) = Some u \<and> protocol u \<noteq> ''http:'' \<and>
           protocol u \<noteq> ''https:'')"
  shows "attempts (HttpClientService_call URL parse m opts fp first trace) = 0"
  using assms client_binder_any [of opts fp]
  by (auto simp: HttpClientService_call_def HttpClientService_makeRequest_def Let_def
                 raisedCall_def
           split: sum.splits)

lemma makeRequest_append:
  "HttpService_makeRequest parse opts first (pre @ x # rest) =
     foldl (engineStep parse (retryBudget opts))
       (engineStep parse (retryBudget opts) (HttpService_makeRequest parse opts first pre) x) rest"
  by (simp add: HttpService_makeRequest_def)

lemma awaitTo_Pending: "(awaitTo promise = Pending) = (promise = None)"
  by (simp add: awaitTo_def split: option.splits)

lemma awaitTo_Some: "awaitTo (Some p) = Returned (to p)"
  by (simp add: awaitTo_def)

lemma awaitTo_shape:
  "awaitTo promise \<noteq> Raised err" "awaitTo promise = Returned t \<Longrightarrow> oneSlot t"
  by (auto simp: awaitTo_def oneSlot_to split: option.splits)

lemma HttpService_call_settles:
  assumes "\<not> frozen opts"
    and "completion (HttpService_call parse m opts fp first pre) = Pending"
    and "HttpService_handle parse (retryBudget opts)
           (retriesCounted (HttpService_call parse m opts fp first pre)) ev = Settle p"
  shows "completion (HttpService_call parse m opts fp first (pre @ Emit ev # rest)) =
           Returned (to p)"
    and "retriesCounted (HttpService_call parse m opts fp first (pre @ [Emit ev])) =
           retriesCounted (HttpService_call parse m opts fp first pre)"
    and "attempts (HttpService_call parse m opts fp first (pre @ [Emit ev])) +
         timersPending (HttpService_call parse m opts fp first (pre @ [Emit ev])) =
           attempts (HttpService_call parse m opts fp first pre) +
           timersPending (HttpService_call parse m opts fp first pre)"
proof -
  let ?s = "HttpService_makeRequest parse opts first pre"
  have none: "settled ?s = None"
    using assms(1,2) by (simp add: HttpService_call_writable awaitTo_Pending)
  have h: "HttpService_handle parse (retryBudget opts) (retries ?s) ev = Settle p"
    using assms(1,3) by (simp add: HttpService_call_writable)
  show "completion (HttpService_call parse m opts fp first (pre @ Emit ev # rest)) =
           Returned (to p)"
    using engineStep_settles(1) [OF none h, of rest] assms(1)
    by (simp add: HttpService_call_writable makeRequest_append awaitTo_Some)
  show "retriesCounted (HttpService_call parse m opts fp first (pre @ [Emit ev])) =
           retriesCounted (HttpService_call parse m opts fp first pre)"
    using engineStep_settles(2) [OF none h] assms(1)
    by (simp add: HttpService_call_writable makeRequest_append)
  show "attempts (HttpService_call parse m opts fp first (pre @ [Emit ev])) +
         timersPending (HttpService_call parse m opts fp first (pre @ [Emit ev])) =
           attempts (HttpService_call parse m opts fp first pre) +
           timersPending (HttpService_call parse m opts fp first pre)"
    using engineStep_settles(3,4) [OF none h] assms(1)
    by (simp add: HttpService_call_writable makeRequest_append)
qed

lemma HttpClientService_call_settles:
  assumes "\<not> frozen opts" and "URL (hostOrEmpty (host opts)) = Some u"
    and "protocol u = ''http:'' \<or> protocol u = ''https:''"
    and "completion (HttpClientService_call URL parse m opts fp first pre) = Pending"
  shows "completion (HttpClientService_call URL parse m opts fp first (pre @ Emit ev # rest)) =
           Returned (to (HttpClientService_handle parse ev))"
proof -
  have "HttpClientService_promise parse first pre = None"
    using assms HttpClientService_call_valid(1) [of opts URL u parse m fp first pre]
    by (simp add: awaitTo_Pending)
  then have "HttpClientService_promise parse first (pre @ Emit ev # rest) =
      Some (HttpClientService_handle parse ev)"
    unfolding HttpClientService_promise_def by (simp add: clientStep_sticky)
  then show ?thesis
    using assms HttpClientService_call_valid(1) [of opts URL u parse m fp first "pre @ Emit ev # rest"]
    by (simp add: awaitTo_Some)
qed

lemma first_run:
  "retries (performRequest first (initialEngine :: 'j engine)) = 0"
  "started (performRequest first (initialEngine :: 'j engine)) = 1"
  "scheduled (performRequest first (initialEngine :: 'j engine)) = 0"
  "settled (performRequest None (initialEngine :: 'j engine)) = None"
  "settled (performRequest (Some err) (initialEngine :: 'j engine)) = Some (Rejected (RejError err))"
  by (simp_all add: performRequest_def initialEngine_def settle_def Let_def split: option.splits)

lemma makeRequest_no_budget:
  assumes "retryBudget opts \<le> 0"
  shows "started (HttpService_makeRequest parse opts first trace) = 1"
    and "scheduled (HttpService_makeRequest parse opts first trace) = 0"
    and "retries (HttpService_makeRequest parse opts first trace) = 0"
  using run_idle [of "retryBudget opts" "performRequest first initialEngine" parse trace] assms
  by (simp_all add: HttpService_makeRequest_def first_run)

lemma makeRequest_count:
  "started (HttpService_makeRequest parse opts first trace) +
   scheduled (HttpService_makeRequest parse opts first trace) =
     Suc (retries (HttpService_makeRequest parse opts first trace))"
  unfolding HttpService_makeRequest_def by (rule run_count) (simp add: first_run)

lemma makeRequest_thrown:
  "settled (HttpService_makeRequest parse opts (Some err) trace) = Some (Rejected (RejError err))"
  unfolding HttpService_makeRequest_def by (rule run_sticky) (simp add: first_run)

lemma makeRequest_must_settle:
  "nat (retryBudget opts) < length (emits trace) \<Longrightarrow>
   settled (HttpService_makeRequest parse opts first trace) \<noteq> None"
  unfolding HttpService_makeRequest_def by (rule run_must_settle) (simp add: first_run)

lemma makeRequest_failures:
  assumes "retryBudget opts = int N"
    and "\<forall>ev\<in>set (emits trace). retryableFailure parse ev"
    and "\<not> list_ex throwing trace"
  shows "retries (HttpService_makeRequest parse opts None trace) = min N (length (emits trace))"
    and "settled (HttpService_makeRequest parse opts None trace) =
           (if N < length (emits trace)
            then Some (HttpClientService_handle parse (emits trace ! N)) else None)"
  using run_failures [OF assms(2,3), of "performRequest None initialEngine" N] assms(1)
  by (simp_all add: HttpService_makeRequest_def first_run)

lemma client_promise_thrown:
  "HttpClientService_promise parse (Some err) trace = Some (Rejected (RejError err))"
  by (simp add: HttpClientService_promise_def clientStep_sticky)

lemma client_promise_events:
  "HttpClientService_promise parse None trace =
     (case emits trace of [] \<Rightarrow> None | ev # evs \<Rightarrow> Some (HttpClientService_handle parse ev))"
  by (simp add: HttpClientService_promise_def client_promise_first)

lemma after_HttpService_call:
  assumes "\<not> frozen opts"
  shows "HttpService_setCheckServerIdentity (opts\<lparr>method := Some (methodName m)\<rparr>) fp =
           Inr (after (HttpService_call parse m opts fp first trace))"
proof -
  let ?o1 = "opts\<lparr>method := Some (methodName m)\<rparr>"
  have "\<not> frozen ?o1" using assms by simp
  then obtain opts2 where "HttpService_setCheckServerIdentity ?o1 fp = Inr opts2"
    using binder_writable(1) by blast
  then show ?thesis
    using assms by (simp add: HttpService_call_def setMethod_def Let_def)
qed

lemma after_HttpClientService_call:
  assumes "\<not> frozen opts"
  shows "\<exists>opts1. HttpClientService_setCheckServerIdentity opts fp = Inr opts1 \<and>
     after (HttpClientService_call URL parse m opts fp first trace) =
      (case URL (hostOrEmpty (host opts)) of
         None \<Rightarrow> opts1\<lparr>method := Some (methodName m)\<rparr>
       | Some u \<Rightarrow>
           opts1\<lparr>method := Some (methodName m), host := HostStr (hostname u),
                 port := (if urlPort u \<noteq> [] then PortStr (urlPort u) else port opts)\<rparr>)"
proof -
  obtain opts1 where b: "HttpClientService_setCheckServerIdentity opts fp = Inr opts1"
    and k: "host opts1 = host opts" "port opts1 = port opts" "frozen opts1 = frozen opts"
    using binder_writable(2) [OF assms, of fp] by blast
  show ?thesis
    using assms b k
    by (auto simp: HttpClientService_call_def HttpClientService_makeRequest_def Let_def
             split: option.splits)
qed

lemma after_frozen:
  assumes "frozen opts"
  shows "after (HttpService_call parse m opts fp first trace) = opts"
    and "method (after (HttpClientService_call URL parse m opts fp first trace)) = method opts"
    and "host (after (HttpClientService_call URL parse m opts fp first trace)) = host opts"
    and "port (after (HttpClientService_call URL parse m opts fp first trace)) = port opts"
  using assms client_binder_any [of opts fp]
  by (auto simp: HttpService_call_frozen raisedCall_def HttpClientService_call_def
        HttpClientService_makeRequest_def split: sum.splits)

section \<open>The closed examples\<close>

lemma URL_ctor_example: "URL_ctor ''http://example.com'' = Some exampleUrl"
  by (simp add: exampleUrl_def URL_ctor_def isC0OrSpace_def isTabOrNewline_def isAlpha_def asciiUpper_def
        asciiLower_def isSchemeChar_def isDigit_def toLower_def parseAuthority_def isSlash_def
        endsAuthority_def isForbiddenHost_def)

lemma URL_ctor_invalid_host: "URL_ctor ''invalid-host'' = None"
  by (simp add: URL_ctor_def isC0OrSpace_def isTabOrNewline_def isAlpha_def asciiUpper_def
        asciiLower_def isSchemeChar_def isDigit_def toLower_def)

lemma URL_ctor_httpz:
  "URL_ctor ''httpz://example.com'' =
     Some \<lparr>protocol = ''httpz:'', hostname = ''example.com'', urlPort = []\<rparr>"
  by (simp add: URL_ctor_def isC0OrSpace_def isTabOrNewline_def isAlpha_def asciiUpper_def
        asciiLower_def isSchemeChar_def isDigit_def toLower_def parseAuthority_def isSlash_def
        endsAuthority_def isForbiddenHost_def)

lemma exampleOptions_simps:
  "retryBudget exampleOptions = 0"
  "host exampleOptions = HostStr ''http://example.com''"
  "\<not> frozen exampleOptions"
  by (simp_all add: exampleOptions_def retryBudget_def)

lemma retryingOptions_simps:
  "retryBudget retryingOptions = 2"
  "host retryingOptions = HostStr ''http://example.com''"
  "\<not> frozen retryingOptions"
  by (simp_all add: retryingOptions_def retryBudget_def)

lemma exampleUrl_simps: "protocol exampleUrl = ''http:''"
  by (simp add: exampleUrl_def)

lemmas engine_eval =
  HttpService_makeRequest_def performRequest_def initialEngine_def settle_def scheduleRetry_def
  HttpService_handle_def HttpService_onEnd_def decodeData_def isJsonContentType_def
  isBinaryContentType_def binaryMimeTypes_def binaryMimeTypesPrefixes_def Let_def
  isSuccessStatusCode_three_digits retryBudget_def

text \<open>
  A request that times out is not destroyed: its response may still arrive. With one
  retry allowed, the first request times out (a retry is scheduled and started), then
  answers 200: the call returns that response, and the timeout of the second request
  comes too late to matter.
\<close>

lemma late_response_settles:
  "completion (HttpService_get JSON_parse_literal oneRetryOptions None None
       [Emit TimeoutEvent, Start None, Emit (End okText [''late'']), Emit TimeoutEvent]) =
     Returned (None, Some ((cloneResponse okText)\<lparr>data := Some (TextData ''late'')\<rparr>)) \<and>
   attempts (HttpService_get JSON_parse_literal oneRetryOptions None None
       [Emit TimeoutEvent, Start None, Emit (End okText [''late'']), Emit TimeoutEvent]) = 2"
proof -
  have w: "\<not> frozen oneRetryOptions" by (simp add: oneRetryOptions_def)
  show ?thesis
    by (simp add: HttpService_get_def HttpService_call_writable [OF w] awaitTo_def)
       (simp add: engine_eval oneRetryOptions_def okText_def)
qed

section \<open>Properties\<close>

text \<open>
  A call is run on a trace: the events of all its requests in the order the handlers see
  them (\<open>Emit\<close>), interleaved with the firing of the retry timers (\<open>Start\<close>); \<open>first\<close> is
  what the first run of the request function throws, if anything. The trace is the
  whole history: a call whose promise no item of the trace settles stays \<open>Pending\<close>.
  \<open>frozen\<close> tells whether the caller's options object rejects writes.
\<close>

text \<open>
  C1, amended. On a writable options object every public operation of \<open>HttpService\<close>
  never raises, every tuple it returns has exactly one slot set, and it does return
  one when the first run of the request function throws or when the requests emit more
  events than \<open>maxRetries\<close>; until an event settles the promise the call is pending.
  \<open>HttpClientService\<close> does the same when the host parses to \<open>http:\<close> or \<open>https:\<close>, and
  returns with the first event; when the host does not parse or the protocol is another
  one it raises the validation error. On a frozen options object every operation of
  either service raises the \<open>TypeError\<close> of the refused write and makes no request.
\<close>

theorem result_tuple_contract:
  assumes "f \<in> {HttpService_get, HttpService_post, HttpService_put, HttpService_delete}"
    and "g \<in> {HttpClientService_get, HttpClientService_post, HttpClientService_put,
                HttpClientService_delete}"
  shows
    "(\<not> frozen opts \<longrightarrow>
        (\<forall>err. completion (f parse opts fp first trace) \<noteq> Raised err) \<and>
        (\<forall>t. completion (f parse opts fp first trace) = Returned t \<longrightarrow> oneSlot t) \<and>
        (first \<noteq> None \<or> nat (retryBudget opts) < length (emits trace) \<longrightarrow>
           (\<exists>t. completion (f parse opts fp first trace) = Returned t \<and> oneSlot t))) \<and>
     (frozen opts \<longrightarrow>
        completion (f parse opts fp first trace) = Raised (readOnlyError ''method'') \<and>
        attempts (f parse opts fp first trace) = 0) \<and>
     (\<forall>u. \<not> frozen opts \<and> URL (hostOrEmpty (host opts)) = Some u \<and>
          (protocol u = ''http:'' \<or> protocol u = ''https:'') \<longrightarrow>
          (\<forall>err. completion (g URL parse opts fp first trace) \<noteq> Raised err) \<and>
          (\<forall>t. completion (g URL parse opts fp first trace) = Returned t \<longrightarrow> oneSlot t) \<and>
          (first \<noteq> None \<or> emits trace \<noteq> [] \<longrightarrow>
             (\<exists>t. completion (g URL parse opts fp first trace) = Returned t \<and> oneSlot t))) \<and>
     (\<not> frozen opts \<and> URL (hostOrEmpty (host opts)) = None \<longrightarrow>
        completion (g URL parse opts fp first trace) = Raised (mustIncludeProtocol (host opts))) \<and>
     (\<forall>u. \<not> frozen opts \<and> URL (hostOrEmpty (host opts)) = Some u \<and>
          protocol u \<noteq> ''http:'' \<and> protocol u \<noteq> ''https:'' \<longrightarrow>
          completion (g URL parse opts fp first trace) = Raised (unknownProtocol (protocol u))) \<and>
     (frozen opts \<longrightarrow>
        (\<exists>prop. completion (g URL parse opts fp first trace) = Raised (readOnlyError prop)) \<and>
        attempts (g URL parse opts fp first trace) = 0)"
proof -
  obtain m where f: "f = (\<lambda>parse. HttpService_call parse m)"
    using assms(1) by (rule HttpService_op_cases)
  obtain m' where g: "g = (\<lambda>URL parse. HttpClientService_call URL parse m')"
    using assms(2) by (rule HttpClientService_op_cases)
  have shape: "(\<forall>err. awaitTo promise \<noteq> Raised err) \<and>
      (\<forall>t. awaitTo promise = Returned t \<longrightarrow> oneSlot t)" for promise :: "'a settled option"
    using awaitTo_shape by blast
  have some: "\<exists>t. awaitTo promise = Returned t \<and> oneSlot t" if "promise \<noteq> None"
    for promise :: "'a settled option"
  proof -
    from that obtain p where "promise = Some p" by auto
    then show ?thesis using oneSlot_to [of p] by (simp add: awaitTo_Some)
  qed
  have legacy: "(\<forall>err. completion (f parse opts fp first trace) \<noteq> Raised err) \<and>
      (\<forall>t. completion (f parse opts fp first trace) = Returned t \<longrightarrow> oneSlot t) \<and>
      (first \<noteq> None \<or> nat (retryBudget opts) < length (emits trace) \<longrightarrow>
         (\<exists>t. completion (f parse opts fp first trace) = Returned t \<and> oneSlot t))"
    if w: "\<not> frozen opts"
  proof -
    have c: "completion (f parse opts fp first trace) =
        awaitTo (settled (HttpService_makeRequest parse opts first trace))"
      using w by (simp add: f HttpService_call_writable)
    have "settled (HttpService_makeRequest parse opts first trace) \<noteq> None"
      if "first \<noteq> None \<or> nat (retryBudget opts) < length (emits trace)"
      using that makeRequest_thrown [of parse opts _ trace]
        makeRequest_must_settle [of opts trace parse first]
      by auto
    then show ?thesis using c shape some by metis
  qed
  have legacy_frozen: "completion (f parse opts fp first trace) = Raised (readOnlyError ''method'') \<and>
      attempts (f parse opts fp first trace) = 0" if "frozen opts"
    using that by (simp add: f HttpService_call_frozen raisedCall_def)
  have valid: "(\<forall>err. completion (g URL parse opts fp first trace) \<noteq> Raised err) \<and>
      (\<forall>t. completion (g URL parse opts fp first trace) = Returned t \<longrightarrow> oneSlot t) \<and>
      (first \<noteq> None \<or> emits trace \<noteq> [] \<longrightarrow>
         (\<exists>t. completion (g URL parse opts fp first trace) = Returned t \<and> oneSlot t))"
    if "\<not> frozen opts" and "URL (hostOrEmpty (host opts)) = Some u"
      and "protocol u = ''http:'' \<or> protocol u = ''https:''" for u
  proof -
    have c: "completion (g URL parse opts fp first trace) =
        awaitTo (HttpClientService_promise parse first trace)"
      using HttpClientService_call_valid(1) [of opts URL u parse m' fp first trace] that
      by (simp add: g)
    have "HttpClientService_promise parse first trace \<noteq> None"
      if "first \<noteq> None \<or> emits trace \<noteq> []"
      using that client_promise_thrown [of parse _ trace] client_promise_events [of parse trace]
      by (cases first; cases "emits trace") auto
    then show ?thesis using c shape some by metis
  qed
  have no_parse: "completion (g URL parse opts fp first trace) = Raised (mustIncludeProtocol (host opts))"
    if "\<not> frozen opts" and "URL (hostOrEmpty (host opts)) = None"
    using HttpClientService_call_no_parse(1) [of opts URL parse m' fp first trace] that
    by (simp add: g)
  have unknown: "completion (g URL parse opts fp first trace) = Raised (unknownProtocol (protocol u))"
    if "\<not> frozen opts" and "URL (hostOrEmpty (host opts)) = Some u" and "protocol u \<noteq> ''http:''"
      and "protocol u \<noteq> ''https:''" for u
    using HttpClientService_call_unknown(1) [of opts URL u parse m' fp first trace] that
    by (simp add: g)
  have client_frozen: "(\<exists>prop. completion (g URL parse opts fp first trace) = Raised (readOnlyError prop)) \<and>
      attempts (g URL parse opts fp first trace) = 0" if "frozen opts"
    using HttpClientService_call_frozen [OF that, of URL parse m' fp first trace]
    by (simp add: g)
  show ?thesis
    using legacy legacy_frozen valid no_parse unknown client_frozen by blast
qed

theorem result_tuple_contract_witness:
  "(\<exists>t. completion (HttpService_delete JSON_parse_literal invalidHostOptions (Some ''AB:CD'')
            (Some (JsError TypeErrorC ''Invalid URL'')) []) = Returned t \<and> oneSlot t) \<and>
   (\<exists>t. completion (HttpService_delete JSON_parse_literal invalidHostOptions (Some ''AB:CD'') None
            [Emit TimeoutEvent, Emit TimeoutEvent, Emit TimeoutEvent]) = Returned t \<and> oneSlot t) \<and>
   completion (HttpService_delete JSON_parse_literal frozenOptions (Some ''AB:CD'') None
            [Emit TimeoutEvent]) = Raised (readOnlyError ''method'') \<and>
   (\<exists>t. completion (HttpClientService_post URL_ctor JSON_parse_literal exampleOptions None None
            [Emit (End noContent [])]) = Returned t \<and> oneSlot t) \<and>
   completion (HttpClientService_post URL_ctor JSON_parse_literal unknownProtocolOptions None None
            [Emit (End noContent [])]) = Raised (unknownProtocol ''httpz:'')"
proof -
  have u: "URL_ctor (hostOrEmpty (host exampleOptions)) = Some exampleUrl"
    by (simp add: URL_ctor_example exampleOptions_simps)
  have z: "URL_ctor (hostOrEmpty (host unknownProtocolOptions)) =
      Some \<lparr>protocol = ''httpz:'', hostname = ''example.com'', urlPort = []\<rparr>"
    by (simp add: URL_ctor_httpz unknownProtocolOptions_def)
  have w: "\<not> frozen invalidHostOptions" "\<not> frozen exampleOptions"
    "\<not> frozen unknownProtocolOptions" "frozen frozenOptions"
    "retryBudget invalidHostOptions = 2"
    by (simp_all add: invalidHostOptions_def exampleOptions_def unknownProtocolOptions_def
          frozenOptions_def retryBudget_def)
  have ops: "HttpService_delete \<in> {HttpService_get, HttpService_post, HttpService_put, HttpService_delete}"
    "HttpClientService_post \<in> {HttpClientService_get, HttpClientService_post,
       HttpClientService_put, HttpClientService_delete}"
    by simp_all
  have a: "\<exists>t. completion (HttpService_delete JSON_parse_literal invalidHostOptions (Some ''AB:CD'')
            (Some (JsError TypeErrorC ''Invalid URL'')) []) = Returned t \<and> oneSlot t"
    using result_tuple_contract [OF ops, of invalidHostOptions
        JSON_parse_literal "Some ''AB:CD''" "Some (JsError TypeErrorC ''Invalid URL'')" "[]" URL_ctor]
      w(1)
    by simp
  have b: "\<exists>t. completion (HttpService_delete JSON_parse_literal invalidHostOptions (Some ''AB:CD'') None
            [Emit TimeoutEvent, Emit TimeoutEvent, Emit TimeoutEvent]) = Returned t \<and> oneSlot t"
    using result_tuple_contract [OF ops, of invalidHostOptions
        JSON_parse_literal "Some ''AB:CD''" None
        "[Emit TimeoutEvent, Emit TimeoutEvent, Emit TimeoutEvent]" URL_ctor] w(1,5)
    by simp
  have c: "completion (HttpService_delete JSON_parse_literal frozenOptions (Some ''AB:CD'') None
            [Emit TimeoutEvent]) = Raised (readOnlyError ''method'')"
    using result_tuple_contract [OF ops, of frozenOptions
        JSON_parse_literal "Some ''AB:CD''" None "[Emit TimeoutEvent]" URL_ctor] w(4)
    by simp
  have d: "\<exists>t. completion (HttpClientService_post URL_ctor JSON_parse_literal exampleOptions None None
            [Emit (End noContent [])]) = Returned t \<and> oneSlot t"
    using result_tuple_contract [OF ops, of exampleOptions
        JSON_parse_literal None None "[Emit (End noContent [])]" URL_ctor] u w(2)
    by (simp add: exampleUrl_simps)
  have e: "completion (HttpClientService_post URL_ctor JSON_parse_literal unknownProtocolOptions None None
            [Emit (End noContent [])]) = Raised (unknownProtocol ''httpz:'')"
    using result_tuple_contract [OF ops, of unknownProtocolOptions
        JSON_parse_literal None None "[Emit (End noContent [])]" URL_ctor] z w(3)
    by simp
  show ?thesis using a b c d e by blast
qed

text \<open>
  C1 as stated fails: \<open>HttpClientService.get\<close> on the host \<open>invalid-host\<close> raises the
  validation error instead of returning a tuple; \<open>HttpService.get\<close> on frozen options
  raises a \<open>TypeError\<close>; and a request that emits no event leaves the call pending.
\<close>

theorem result_tuple_counterexample:
  "completion (HttpClientService_get URL_ctor JSON_parse_literal invalidHostOptions None None
       [Emit (End noContent [])]) =
     Raised (JsError ErrorC ''Host \"invalid-host\" must include protocol'') \<and>
   completion (HttpService_get JSON_parse_literal frozenOptions None None
       [Emit (End noContent [])]) =
     Raised (JsError TypeErrorC ''Cannot assign to read only property method'') \<and>
   completion (HttpService_get JSON_parse_literal exampleOptions None None []) = Pending"
proof -
  have n: "URL_ctor (hostOrEmpty (host invalidHostOptions)) = None"
    by (simp add: URL_ctor_invalid_host invalidHostOptions_def)
  have w: "\<not> frozen invalidHostOptions" "frozen frozenOptions" "\<not> frozen exampleOptions"
    by (simp_all add: invalidHostOptions_def frozenOptions_def exampleOptions_def)
  have a: "completion (HttpClientService_get URL_ctor JSON_parse_literal invalidHostOptions None None
       [Emit (End noContent [])]) =
     Raised (JsError ErrorC ''Host \"invalid-host\" must include protocol'')"
    using HttpClientService_call_no_parse(1) [of invalidHostOptions URL_ctor JSON_parse_literal
      GET None None "[Emit (End noContent [])]"] w(1) n
    by (simp add: HttpClientService_get_def mustIncludeProtocol_def invalidHostOptions_def)
  have b: "completion (HttpService_get JSON_parse_literal frozenOptions None None
       [Emit (End noContent [])]) =
     Raised (JsError TypeErrorC ''Cannot assign to read only property method'')"
    using w(2) by (simp add: HttpService_get_def HttpService_call_frozen raisedCall_def
        readOnlyError_def)
  have c: "completion (HttpService_get JSON_parse_literal exampleOptions None None []) = Pending"
    by (simp add: HttpService_get_def HttpService_call_writable [OF w(3)] awaitTo_def
          HttpService_makeRequest_def first_run)
  show ?thesis using a b c by blast
qed

text \<open>
  C2. With \<open>maxRetries\<close> absent or 0, every operation of \<open>HttpService\<close> on a writable
  options object calls the request function exactly once and schedules no retry,
  whatever the requests emit and in whatever order; every operation of
  \<open>HttpClientService\<close> calls it exactly once when the host parses to \<open>http:\<close> or \<open>https:\<close>.
\<close>

theorem single_attempt_without_retries:
  assumes "maxRetries opts = None \<or> maxRetries opts = Some 0" and "\<not> frozen opts"
  shows "attempts (HttpService_get parse opts fp first trace) = 1 \<and>
         attempts (HttpService_post parse opts fp first trace) = 1 \<and>
         attempts (HttpService_put parse opts fp first trace) = 1 \<and>
         attempts (HttpService_delete parse opts fp first trace) = 1 \<and>
         timersPending (HttpService_get parse opts fp first trace) = 0 \<and>
         timersPending (HttpService_post parse opts fp first trace) = 0 \<and>
         timersPending (HttpService_put parse opts fp first trace) = 0 \<and>
         timersPending (HttpService_delete parse opts fp first trace) = 0 \<and>
         (\<forall>u. URL (hostOrEmpty (host opts)) = Some u \<and>
              (protocol u = ''http:'' \<or> protocol u = ''https:'') \<longrightarrow>
              attempts (HttpClientService_get URL parse opts fp first trace) = 1 \<and>
              attempts (HttpClientService_post URL parse opts fp first trace) = 1 \<and>
              attempts (HttpClientService_put URL parse opts fp first trace) = 1 \<and>
              attempts (HttpClientService_delete URL parse opts fp first trace) = 1)"
proof -
  have m0: "retryBudget opts \<le> 0"
    using assms(1) by (auto simp: retryBudget_def)
  have legacy: "attempts (HttpService_call parse m opts fp first trace) = 1"
    "timersPending (HttpService_call parse m opts fp first trace) = 0" for m
    using makeRequest_no_budget [OF m0] assms(2) by (simp_all add: HttpService_call_writable)
  have client: "attempts (HttpClientService_call URL parse m opts fp first trace) = 1"
    if "URL (hostOrEmpty (host opts)) = Some u"
      and "protocol u = ''http:'' \<or> protocol u = ''https:''" for u m
    using HttpClientService_call_valid(2) [of opts URL u parse m fp first trace] that assms(2)
    by simp
  show ?thesis
    using legacy client by (simp add: HttpService_ops HttpClientService_ops)
qed

theorem single_attempt_without_retries_witness:
  "maxRetries exampleOptions = Some 0 \<and>
   attempts (HttpService_get JSON_parse_literal exampleOptions None None
       [Emit TimeoutEvent, Emit (End serverError [''late''])]) = 1 \<and>
   timersPending (HttpService_get JSON_parse_literal exampleOptions None None
       [Emit TimeoutEvent, Emit (End serverError [''late''])]) = 0 \<and>
   attempts (HttpClientService_delete URL_ctor JSON_parse_literal exampleOptions None None
       [Emit (ErrorEvent (JsError ErrorC ''socket hang up''))]) = 1"
proof -
  have h: "maxRetries exampleOptions = None \<or> maxRetries exampleOptions = Some 0"
    by (simp add: exampleOptions_def)
  have w: "\<not> frozen exampleOptions" by (simp add: exampleOptions_simps)
  have u: "URL_ctor (hostOrEmpty (host exampleOptions)) = Some exampleUrl"
    by (simp add: URL_ctor_example exampleOptions_simps)
  show ?thesis
    using single_attempt_without_retries [OF h w, of JSON_parse_literal None None
        "[Emit TimeoutEvent, Emit (End serverError [''late''])]" URL_ctor]
      single_attempt_without_retries [OF h w, of JSON_parse_literal None None
        "[Emit (ErrorEvent (JsError ErrorC ''socket hang up''))]" URL_ctor] u
    by (simp add: exampleOptions_def exampleUrl_simps)
qed

text \<open>
  C3, amended. \<open>HttpService\<close> with \<open>maxRetries = N\<close>, on a writable options object, when
  every event the requests emit is a retryable failure and no run of the request
  function throws: the requests started plus the retries still waiting for their timer
  are \<open>min N k + 1\<close> after \<open>k\<close> events, so never more than \<open>N + 1\<close>; the call stays
  pending through the first \<open>N\<close> events; event \<open>N + 1\<close> ends it, with the failure of
  that event in the error slot; and once all timers have fired exactly \<open>N + 1\<close> requests
  were made. \<open>HttpClientService\<close> makes one request and ends with the failure of the
  first event.
\<close>

theorem retries_until_budget_spent:
  assumes "f \<in> {HttpService_get, HttpService_post, HttpService_put, HttpService_delete}"
    and "g \<in> {HttpClientService_get, HttpClientService_post, HttpClientService_put,
                HttpClientService_delete}"
    and "\<not> frozen opts" and "retryBudget opts = int N"
    and "\<forall>ev\<in>set (emits trace). retryableFailure parse ev"
    and "\<not> list_ex throwing trace"
  shows
    "attempts (f parse opts fp None trace) + timersPending (f parse opts fp None trace) =
       min N (length (emits trace)) + 1 \<and>
     (length (emits trace) \<le> N \<longrightarrow> completion (f parse opts fp None trace) = Pending) \<and>
     (N < length (emits trace) \<longrightarrow>
        carriesFailure (completion (f parse opts fp None trace)) (emits trace ! N)) \<and>
     (N < length (emits trace) \<and> timersPending (f parse opts fp None trace) = 0 \<longrightarrow>
        attempts (f parse opts fp None trace) = N + 1) \<and>
     (\<forall>u. URL (hostOrEmpty (host opts)) = Some u \<and>
          (protocol u = ''http:'' \<or> protocol u = ''https:'') \<longrightarrow>
          attempts (g URL parse opts fp None trace) = 1 \<and>
          (emits trace \<noteq> [] \<longrightarrow>
             carriesFailure (completion (g URL parse opts fp None trace)) (hd (emits trace))))"
proof -
  obtain m where f: "f = (\<lambda>parse. HttpService_call parse m)"
    using assms(1) by (rule HttpService_op_cases)
  obtain m' where g: "g = (\<lambda>URL parse. HttpClientService_call URL parse m')"
    using assms(2) by (rule HttpClientService_op_cases)
  let ?s = "HttpService_makeRequest parse opts None trace"
  have r: "retries ?s = min N (length (emits trace))"
    and p: "settled ?s = (if N < length (emits trace)
              then Some (HttpClientService_handle parse (emits trace ! N)) else None)"
    using makeRequest_failures [OF assms(4,5,6)] by simp_all
  have count: "attempts (f parse opts fp None trace) + timersPending (f parse opts fp None trace) =
      min N (length (emits trace)) + 1"
    using makeRequest_count [of parse opts None trace] r assms(3)
    by (simp add: f HttpService_call_writable)
  have pending: "completion (f parse opts fp None trace) = Pending"
    if "length (emits trace) \<le> N"
    using that p assms(3) by (simp add: f HttpService_call_writable awaitTo_def)
  have carried: "carriesFailure (completion (f parse opts fp None trace)) (emits trace ! N)"
    if "N < length (emits trace)"
  proof -
    have "retryableFailure parse (emits trace ! N)" using that assms(5) by simp
    then show ?thesis
      using that p assms(3)
      by (simp add: f HttpService_call_writable awaitTo_Some client_handle_carries)
  qed
  have all: "attempts (f parse opts fp None trace) = N + 1"
    if "N < length (emits trace)" and "timersPending (f parse opts fp None trace) = 0"
    using count that by simp
  have client: "attempts (g URL parse opts fp None trace) = 1 \<and>
      (emits trace \<noteq> [] \<longrightarrow>
         carriesFailure (completion (g URL parse opts fp None trace)) (hd (emits trace)))"
    if "URL (hostOrEmpty (host opts)) = Some u" and "protocol u = ''http:'' \<or> protocol u = ''https:''"
    for u
  proof -
    have c: "completion (g URL parse opts fp None trace) =
        awaitTo (HttpClientService_promise parse None trace)"
      and a: "attempts (g URL parse opts fp None trace) = 1"
      using HttpClientService_call_valid [of opts URL u parse m' fp None trace] that assms(3)
      by (simp_all add: g)
    have "carriesFailure (completion (g URL parse opts fp None trace)) (hd (emits trace))"
      if ne: "emits trace \<noteq> []"
    proof -
      obtain ev evs where e: "emits trace = ev # evs" using ne by (cases "emits trace") auto
      then have "retryableFailure parse ev" using assms(5) by simp
      then show ?thesis
        using c e by (simp add: client_promise_events awaitTo_Some client_handle_carries)
    qed
    then show ?thesis using a by simp
  qed
  show ?thesis using count pending carried all client by blast
qed

theorem retries_until_budget_spent_witness:
  "retryBudget retryingOptions = 2 \<and>
   attempts (HttpService_get JSON_parse_literal retryingOptions None None
       [Emit TimeoutEvent, Start None, Emit (ErrorEvent (JsError ErrorC ''socket hang up'')),
        Start None, Emit (End serverError [''Service Unavailable''])]) = 3 \<and>
   carriesFailure
     (completion (HttpService_get JSON_parse_literal retryingOptions None None
       [Emit TimeoutEvent, Start None, Emit (ErrorEvent (JsError ErrorC ''socket hang up'')),
        Start None, Emit (End serverError [''Service Unavailable''])]))
     (End serverError [''Service Unavailable'']) \<and>
   completion (HttpService_get JSON_parse_literal retryingOptions None None
       [Emit TimeoutEvent, Start None, Emit (ErrorEvent (JsError ErrorC ''socket hang up''))]) =
     Pending \<and>
   attempts (HttpClientService_get URL_ctor JSON_parse_literal retryingOptions None None
       [Emit TimeoutEvent, Start None, Emit (ErrorEvent (JsError ErrorC ''socket hang up'')),
        Start None, Emit (End serverError [''Service Unavailable''])]) = 1"
proof -
  let ?long = "[Emit TimeoutEvent, Start None, Emit (ErrorEvent (JsError ErrorC ''socket hang up'')),
        Start None, Emit (End serverError [''Service Unavailable''])]"
  let ?short = "[Emit TimeoutEvent, Start None, Emit (ErrorEvent (JsError ErrorC ''socket hang up''))]"
  have b: "retryBudget retryingOptions = int 2" and w: "\<not> frozen retryingOptions"
    by (simp_all add: retryingOptions_simps)
  have u: "URL_ctor (hostOrEmpty (host retryingOptions)) = Some exampleUrl"
    by (simp add: URL_ctor_example retryingOptions_simps)
  have s: "\<not> isSuccessStatusCode (Some 503)"
    by (simp add: isSuccessStatusCode_three_digits)
  have j: "\<not> isJsonContentType (headers serverError)"
    by (simp add: isJsonContentType_def serverError_def)
  have r: "\<forall>ev\<in>set (emits ?long). retryableFailure JSON_parse_literal ev"
    "\<forall>ev\<in>set (emits ?short). retryableFailure JSON_parse_literal ev"
    using s j by (simp_all add: retryableFailure_def serverError_def)
  have t: "\<not> list_ex throwing ?long" "\<not> list_ex throwing ?short" by simp_all
  have idle: "timersPending (HttpService_get JSON_parse_literal retryingOptions None None ?long) = 0"
    by (simp add: HttpService_get_def HttpService_call_writable [OF w])
       (simp add: engine_eval retryingOptions_def serverError_def)
  show ?thesis
    using retries_until_budget_spent [of HttpService_get HttpClientService_get retryingOptions 2
        ?long JSON_parse_literal None URL_ctor, OF _ _ w b r(1) t(1)]
      retries_until_budget_spent [of HttpService_get HttpClientService_get retryingOptions 2
        ?short JSON_parse_literal None URL_ctor, OF _ _ w b r(2) t(2)] u idle
    by (simp add: exampleUrl_simps retryingOptions_simps)
qed

text \<open>
  C3 as stated fails: with \<open>maxRetries = 2\<close>, \<open>HttpClientService\<close> makes one request
  however many timeouts follow; and \<open>HttpService\<close>, on a response with status 500 whose
  JSON body does not parse, makes one request, schedules no retry and ends with the
  parse error.
\<close>

theorem retries_counterexample:
  "maxRetries retryingOptions = Some 2 \<and>
   attempts (HttpClientService_get URL_ctor JSON_parse_literal retryingOptions None None
       [Emit TimeoutEvent, Emit TimeoutEvent, Emit TimeoutEvent]) = 1 \<and>
   timersPending (HttpClientService_get URL_ctor JSON_parse_literal retryingOptions None None
       [Emit TimeoutEvent, Emit TimeoutEvent, Emit TimeoutEvent]) = 0 \<and>
   attempts (HttpService_get JSON_parse_literal retryingOptions None None
       [Emit (End brokenJsonError [''not json''])]) = 1 \<and>
   timersPending (HttpService_get JSON_parse_literal retryingOptions None None
       [Emit (End brokenJsonError [''not json''])]) = 0 \<and>
   completion (HttpService_get JSON_parse_literal retryingOptions None None
       [Emit (End brokenJsonError [''not json''])]) =
     Returned (Some (RejError (JsError SyntaxErrorC ''Unexpected token'')), None)"
proof -
  have u: "URL_ctor (hostOrEmpty (host retryingOptions)) = Some exampleUrl"
    by (simp add: URL_ctor_example retryingOptions_simps)
  have w: "\<not> frozen retryingOptions" by (simp add: retryingOptions_simps)
  have client: "attempts (HttpClientService_get URL_ctor JSON_parse_literal retryingOptions None None
       [Emit TimeoutEvent, Emit TimeoutEvent, Emit TimeoutEvent]) = 1"
    "timersPending (HttpClientService_get URL_ctor JSON_parse_literal retryingOptions None None
       [Emit TimeoutEvent, Emit TimeoutEvent, Emit TimeoutEvent]) = 0"
    using HttpClientService_call_valid(2,3) [of retryingOptions URL_ctor exampleUrl
        JSON_parse_literal GET None None
        "[Emit TimeoutEvent, Emit TimeoutEvent, Emit TimeoutEvent]"] w u
    by (simp_all add: HttpClientService_get_def exampleUrl_simps)
  have legacy: "attempts (HttpService_get JSON_parse_literal retryingOptions None None
       [Emit (End brokenJsonError [''not json''])]) = 1"
    "timersPending (HttpService_get JSON_parse_literal retryingOptions None None
       [Emit (End brokenJsonError [''not json''])]) = 0"
    "completion (HttpService_get JSON_parse_literal retryingOptions None None
       [Emit (End brokenJsonError [''not json''])]) =
     Returned (Some (RejError (JsError SyntaxErrorC ''Unexpected token'')), None)"
    by (simp_all add: HttpService_get_def HttpService_call_writable [OF w] awaitTo_def)
       (simp_all add: engine_eval retryingOptions_def brokenJsonError_def JSON_parse_literal_def)
  show ?thesis using client legacy by (simp add: retryingOptions_def)
qed



text \<open>
  C5, amended. On a body with at least one chunk the decoder goes by the content-type
  header as it is written, case and all: a header that starts with \<open>application/json\<close>
  gives the value \<open>JSON.parse\<close> returns (or its error); a header equal to
  \<open>application/pdf\<close> or \<open>application/p7s\<close>, or starting with \<open>image/\<close>, gives the bytes;
  any other header, and an absent one, gives the text. Under a success status that value
  is the \<open>data\<close> the \<open>end\<close> handler resolves with, in both services.
\<close>

theorem content_type_decoding:
  "(\<forall>ct. hs ''content-type'' = Some ct \<and> prefix ''application/json'' ct \<longrightarrow>
        decodeData parse hs chunks =
          (case parse (concat chunks) of Inl err \<Rightarrow> Inl err | Inr v \<Rightarrow> Inr (JsonData v))) \<and>
   (\<forall>ct. hs ''content-type'' = Some ct \<and>
        (ct = ''application/pdf'' \<or> ct = ''application/p7s'' \<or> prefix ''image/'' ct) \<longrightarrow>
        decodeData parse hs chunks = Inr (BinaryData (concat chunks))) \<and>
   (hs ''content-type'' = None \<or>
    (\<exists>ct. hs ''content-type'' = Some ct \<and> \<not> prefix ''application/json'' ct \<and>
          ct \<noteq> ''application/pdf'' \<and> ct \<noteq> ''application/p7s'' \<and> \<not> prefix ''image/'' ct) \<longrightarrow>
      decodeData parse hs chunks = Inr (TextData (concat chunks))) \<and>
   (\<forall>r d. chunks \<noteq> [] \<and> isSuccessStatusCode (statusCode r) \<and>
        decodeData parse (headers r) chunks = Inr d \<longrightarrow>
        HttpService_handle parse m k (End r chunks) =
          Settle (Resolved ((cloneResponse r)\<lparr>data := Some d\<rparr>)) \<and>
        HttpClientService_handle parse (End r chunks) =
          Resolved ((cloneResponse r)\<lparr>data := Some d\<rparr>))"
  using decodeData_json [of hs _ parse chunks] decodeData_binary [of hs _ parse chunks]
    decodeData_text [of hs parse chunks] decoded_is_data(1) [of chunks _ parse _ m k]
    decoded_is_data(2) [of chunks _ parse]
  by blast

theorem content_type_decoding_witness:
  "decodeData JSON_parse_literal [''content-type'' \<mapsto> ''application/json; charset=utf-8''] [''nu'', ''ll'']
     = Inr (JsonData JsonNull) \<and>
   decodeData JSON_parse_literal [''content-type'' \<mapsto> ''image/png''] [''nu'', ''ll'']
     = Inr (BinaryData ''null'') \<and>
   decodeData JSON_parse_literal Map.empty [''nu'', ''ll''] = Inr (TextData ''null'') \<and>
   decodeData JSON_parse_literal [''content-type'' \<mapsto> ''text/plain''] [''nu'', ''ll'']
     = Inr (TextData ''null'') \<and>
   HttpClientService_handle JSON_parse_literal (End noContent [''nu'', ''ll'']) =
     Resolved ((cloneResponse noContent)\<lparr>data := Some (TextData ''null'')\<rparr>)"
proof -
  have s: "isSuccessStatusCode (statusCode noContent)"
    by (simp add: noContent_def isSuccessStatusCode_three_digits)
  have h: "headers noContent = Map.empty" by (simp add: noContent_def)
  show ?thesis
    using content_type_decoding [of "[''content-type'' \<mapsto> ''application/json; charset=utf-8'']"
        JSON_parse_literal "[''nu'', ''ll'']" 0 0]
      content_type_decoding [of "[''content-type'' \<mapsto> ''image/png'']"
        JSON_parse_literal "[''nu'', ''ll'']" 0 0]
      content_type_decoding [of Map.empty JSON_parse_literal "[''nu'', ''ll'']" 0 0]
      content_type_decoding [of "[''content-type'' \<mapsto> ''text/plain'']"
        JSON_parse_literal "[''nu'', ''ll'']" 0 0] s h
    by (simp add: JSON_parse_literal_def)
qed

text \<open>
  C5 as stated fails: the header \<open>Application/JSON\<close> matches \<open>application/json\<close> when case
  is ignored, and the body \<open>null\<close> is JSON, yet the decoder returns the text \<open>null\<close>, not
  the parsed value.
\<close>

theorem content_type_counterexample:
  "map toLower ''Application/JSON'' = ''application/json'' \<and>
   JSON_parse_literal (concat [''null'']) = Inr JsonNull \<and>
   decodeData JSON_parse_literal upperCaseJson [''null''] = Inr (TextData ''null'')"
  by (simp add: toLower_def asciiUpper_def asciiLower_def JSON_parse_literal_def decodeData_def
        upperCaseJson_def isJsonContentType_def isBinaryContentType_def binaryMimeTypes_def
        binaryMimeTypesPrefixes_def)

text \<open>
  C6. In \<open>HttpClientService\<close>, a host that the \<open>URL\<close> constructor rejects ends every
  operation on a writable options object with the error
  \<open>Host "<host>" must include protocol\<close>, and a host whose protocol is neither \<open>http:\<close>
  nor \<open>https:\<close> with \<open>Unknown protocol, <protocol>\<close>; in both cases, and on a frozen
  options object too, the request function is never called, whatever \<open>maxRetries\<close> says
  and whatever the trace holds.
\<close>

theorem invalid_host_fails_locally:
  assumes "g \<in> {HttpClientService_get, HttpClientService_post, HttpClientService_put,
                  HttpClientService_delete}"
  shows
    "(URL (hostOrEmpty (host opts)) = None \<longrightarrow>
        (\<not> frozen opts \<longrightarrow>
           completion (g URL parse opts fp first trace) =
             Raised (JsError ErrorC (''Host \"'' @ hostText (host opts) @ ''\" must include protocol''))) \<and>
        attempts (g URL parse opts fp first trace) = 0) \<and>
     (\<forall>u. URL (hostOrEmpty (host opts)) = Some u \<and>
          protocol u \<noteq> ''http:'' \<and> protocol u \<noteq> ''https:'' \<longrightarrow>
          (\<not> frozen opts \<longrightarrow>
             completion (g URL parse opts fp first trace) =
               Raised (JsError ErrorC (''Unknown protocol, '' @ protocol u))) \<and>
          attempts (g URL parse opts fp first trace) = 0)"
proof -
  obtain m' where g: "g = (\<lambda>URL parse. HttpClientService_call URL parse m')"
    using assms by (rule HttpClientService_op_cases)
  have no_parse: "completion (g URL parse opts fp first trace) = Raised (mustIncludeProtocol (host opts))"
    if "URL (hostOrEmpty (host opts)) = None" and "\<not> frozen opts"
    using HttpClientService_call_no_parse(1) [of opts URL parse m' fp first trace] that
    by (simp add: g)
  have unknown: "completion (g URL parse opts fp first trace) = Raised (unknownProtocol (protocol u))"
    if "URL (hostOrEmpty (host opts)) = Some u" and "protocol u \<noteq> ''http:''"
      and "protocol u \<noteq> ''https:''" and "\<not> frozen opts" for u
    using HttpClientService_call_unknown(1) [of opts URL u parse m' fp first trace] that
    by (simp add: g)
  have none: "attempts (g URL parse opts fp first trace) = 0"
    if "URL (hostOrEmpty (host opts)) = None \<or>
      (\<exists>u. URL (hostOrEmpty (host opts)) = Some u \<and> protocol u \<noteq> ''http:'' \<and>
           protocol u \<noteq> ''https:'')"
    using HttpClientService_call_invalid_attempts [of URL opts parse m' fp first trace] that
    by (simp add: g)
  show ?thesis
    using no_parse unknown none by (auto simp: mustIncludeProtocol_def unknownProtocol_def)
qed

theorem invalid_host_fails_locally_witness:
  "maxRetries invalidHostOptions = Some 2 \<and>
   completion (HttpClientService_get URL_ctor JSON_parse_literal invalidHostOptions None None
       [Emit TimeoutEvent, Emit TimeoutEvent, Emit TimeoutEvent]) =
     Raised (JsError ErrorC ''Host \"invalid-host\" must include protocol'') \<and>
   attempts (HttpClientService_get URL_ctor JSON_parse_literal invalidHostOptions None None
       [Emit TimeoutEvent, Emit TimeoutEvent, Emit TimeoutEvent]) = 0 \<and>
   completion (HttpClientService_get URL_ctor JSON_parse_literal unknownProtocolOptions None None
       [Emit TimeoutEvent, Emit TimeoutEvent, Emit TimeoutEvent]) =
     Raised (JsError ErrorC ''Unknown protocol, httpz:'') \<and>
   attempts (HttpClientService_get URL_ctor JSON_parse_literal unknownProtocolOptions None None
       [Emit TimeoutEvent, Emit TimeoutEvent, Emit TimeoutEvent]) = 0"
proof -
  have n: "URL_ctor (hostOrEmpty (host invalidHostOptions)) = None"
    by (simp add: URL_ctor_invalid_host invalidHostOptions_def)
  have z: "URL_ctor (hostOrEmpty (host unknownProtocolOptions)) =
      Some \<lparr>protocol = ''httpz:'', hostname = ''example.com'', urlPort = []\<rparr>"
    by (simp add: URL_ctor_httpz unknownProtocolOptions_def)
  have w: "\<not> frozen invalidHostOptions" "\<not> frozen unknownProtocolOptions"
    by (simp_all add: invalidHostOptions_def unknownProtocolOptions_def)
  have a: "completion (HttpClientService_get URL_ctor JSON_parse_literal invalidHostOptions None None
       [Emit TimeoutEvent, Emit TimeoutEvent, Emit TimeoutEvent]) =
     Raised (JsError ErrorC ''Host \"invalid-host\" must include protocol'') \<and>
   attempts (HttpClientService_get URL_ctor JSON_parse_literal invalidHostOptions None None
       [Emit TimeoutEvent, Emit TimeoutEvent, Emit TimeoutEvent]) = 0"
    using invalid_host_fails_locally [of HttpClientService_get URL_ctor invalidHostOptions
        JSON_parse_literal None None "[Emit TimeoutEvent, Emit TimeoutEvent, Emit TimeoutEvent]"]
      n w(1)
    by (simp add: invalidHostOptions_def)
  have b: "completion (HttpClientService_get URL_ctor JSON_parse_literal unknownProtocolOptions None None
       [Emit TimeoutEvent, Emit TimeoutEvent, Emit TimeoutEvent]) =
     Raised (JsError ErrorC ''Unknown protocol, httpz:'') \<and>
   attempts (HttpClientService_get URL_ctor JSON_parse_literal unknownProtocolOptions None None
       [Emit TimeoutEvent, Emit TimeoutEvent, Emit TimeoutEvent]) = 0"
    using invalid_host_fails_locally [of HttpClientService_get URL_ctor unknownProtocolOptions
        JSON_parse_literal None None "[Emit TimeoutEvent, Emit TimeoutEvent, Emit TimeoutEvent]"]
      z w(2)
    by simp
  show ?thesis using a b by (simp add: invalidHostOptions_def)
qed

text \<open>
  C7. A response that delivers no chunk, reaching a call that is still pending: under a
  status from 200 to 299 the call succeeds and \<open>data\<close> of the result is absent; under
  another three-digit status, in \<open>HttpService\<close> once \<open>retries\<close> has reached \<open>maxRetries\<close>
  and in \<open>HttpClientService\<close> always, the call ends with the cloned response in the
  error slot, \<open>data\<close> absent and the status code attached. Later events change
  nothing.
\<close>

theorem empty_body_outcomes:
  assumes "f \<in> {HttpService_get, HttpService_post, HttpService_put, HttpService_delete}"
    and "g \<in> {HttpClientService_get, HttpClientService_post, HttpClientService_put,
                HttpClientService_delete}"
    and "\<not> frozen opts"
    and "statusCode r = Some sc" and "sc < 1000"
  shows
    "(completion (f parse opts fp first pre) = Pending \<and> 200 \<le> sc \<and> sc \<le> 299 \<longrightarrow>
        (\<exists>res. completion (f parse opts fp first (pre @ Emit (End r []) # rest)) =
                 Returned (None, Some res) \<and>
               data res = None \<and> statusCode res = Some sc)) \<and>
     (completion (f parse opts fp first pre) = Pending \<and> \<not> (200 \<le> sc \<and> sc \<le> 299) \<and>
      retryBudget opts \<le> int (retriesCounted (f parse opts fp first pre)) \<longrightarrow>
        (\<exists>res. completion (f parse opts fp first (pre @ Emit (End r []) # rest)) =
                 Returned (Some (RejResponse res), None) \<and>
               data res = None \<and> statusCode res = Some sc)) \<and>
     (\<forall>u. URL (hostOrEmpty (host opts)) = Some u \<and>
          (protocol u = ''http:'' \<or> protocol u = ''https:'') \<and>
          completion (g URL parse opts fp first pre) = Pending \<longrightarrow>
          (200 \<le> sc \<and> sc \<le> 299 \<longrightarrow>
             (\<exists>res. completion (g URL parse opts fp first (pre @ Emit (End r []) # rest)) =
                      Returned (None, Some res) \<and>
                    data res = None \<and> statusCode res = Some sc)) \<and>
          (\<not> (200 \<le> sc \<and> sc \<le> 299) \<longrightarrow>
             (\<exists>res. completion (g URL parse opts fp first (pre @ Emit (End r []) # rest)) =
                      Returned (Some (RejResponse res), None) \<and>
                    data res = None \<and> statusCode res = Some sc)))"
proof -
  obtain m where f: "f = (\<lambda>parse. HttpService_call parse m)"
    using assms(1) by (rule HttpService_op_cases)
  obtain m' where g: "g = (\<lambda>URL parse. HttpClientService_call URL parse m')"
    using assms(2) by (rule HttpClientService_op_cases)
  have ok: "isSuccessStatusCode (statusCode r) = (200 \<le> sc \<and> sc \<le> 299)"
    using assms(4,5) by (simp add: isSuccessStatusCode_three_digits)
  have clone: "data (cloneResponse r :: 'a res) = None"
    "statusCode (cloneResponse r :: 'a res) = Some sc"
    using assms(4) by (simp_all add: cloneResponse_simps)
  have success: "completion (f parse opts fp first (pre @ Emit (End r []) # rest)) =
      Returned (None, Some (cloneResponse r))"
    if "completion (f parse opts fp first pre) = Pending" and "200 \<le> sc \<and> sc \<le> 299"
  proof -
    have "HttpService_handle parse (retryBudget opts)
        (retriesCounted (HttpService_call parse m opts fp first pre)) (End r []) =
        Settle (Resolved (cloneResponse r))"
      using that(2) ok by (simp add: legacy_empty_body_success)
    from HttpService_call_settles(1) [OF assms(3) that(1) [unfolded f] this, of rest]
    show ?thesis by (simp add: f)
  qed
  have failure: "completion (f parse opts fp first (pre @ Emit (End r []) # rest)) =
      Returned (Some (RejResponse (cloneResponse r)), None)"
    if "completion (f parse opts fp first pre) = Pending" and "\<not> (200 \<le> sc \<and> sc \<le> 299)"
      and "retryBudget opts \<le> int (retriesCounted (f parse opts fp first pre))"
  proof -
    have "HttpService_handle parse (retryBudget opts)
        (retriesCounted (HttpService_call parse m opts fp first pre)) (End r []) =
        Settle (Rejected (RejResponse (cloneResponse r)))"
      using that(2,3) ok by (simp add: f handle_spent client_empty_body)
    from HttpService_call_settles(1) [OF assms(3) that(1) [unfolded f] this, of rest]
    show ?thesis by (simp add: f)
  qed
  have client: "completion (g URL parse opts fp first (pre @ Emit (End r []) # rest)) =
      Returned (to (HttpClientService_handle parse (End r [])))"
    if "URL (hostOrEmpty (host opts)) = Some u" and "protocol u = ''http:'' \<or> protocol u = ''https:''"
      and "completion (g URL parse opts fp first pre) = Pending" for u
    using HttpClientService_call_settles [of opts URL u parse m' fp first pre "End r []" rest]
      that assms(3)
    by (simp add: g)
  have client_ok: "completion (g URL parse opts fp first (pre @ Emit (End r []) # rest)) =
      Returned (None, Some (cloneResponse r))"
    if "URL (hostOrEmpty (host opts)) = Some u" and "protocol u = ''http:'' \<or> protocol u = ''https:''"
      and "completion (g URL parse opts fp first pre) = Pending" and "200 \<le> sc \<and> sc \<le> 299" for u
    using client [OF that(1,2,3)] that(4) ok by (simp add: client_empty_body)
  have client_fail: "completion (g URL parse opts fp first (pre @ Emit (End r []) # rest)) =
      Returned (Some (RejResponse (cloneResponse r)), None)"
    if "URL (hostOrEmpty (host opts)) = Some u" and "protocol u = ''http:'' \<or> protocol u = ''https:''"
      and "completion (g URL parse opts fp first pre) = Pending"
      and "\<not> (200 \<le> sc \<and> sc \<le> 299)" for u
    using client [OF that(1,2,3)] that(4) ok by (simp add: client_empty_body)
  have A: "completion (f parse opts fp first pre) = Pending \<and> 200 \<le> sc \<and> sc \<le> 299 \<longrightarrow>
        (\<exists>res. completion (f parse opts fp first (pre @ Emit (End r []) # rest)) =
                 Returned (None, Some res) \<and>
               data res = None \<and> statusCode res = Some sc)"
    using success clone by blast
  have B: "completion (f parse opts fp first pre) = Pending \<and> \<not> (200 \<le> sc \<and> sc \<le> 299) \<and>
      retryBudget opts \<le> int (retriesCounted (f parse opts fp first pre)) \<longrightarrow>
        (\<exists>res. completion (f parse opts fp first (pre @ Emit (End r []) # rest)) =
                 Returned (Some (RejResponse res), None) \<and>
               data res = None \<and> statusCode res = Some sc)"
    using failure clone by blast
  have C: "(200 \<le> sc \<and> sc \<le> 299 \<longrightarrow>
             (\<exists>res. completion (g URL parse opts fp first (pre @ Emit (End r []) # rest)) =
                      Returned (None, Some res) \<and>
                    data res = None \<and> statusCode res = Some sc)) \<and>
          (\<not> (200 \<le> sc \<and> sc \<le> 299) \<longrightarrow>
             (\<exists>res. completion (g URL parse opts fp first (pre @ Emit (End r []) # rest)) =
                      Returned (Some (RejResponse res), None) \<and>
                    data res = None \<and> statusCode res = Some sc))"
    if "URL (hostOrEmpty (host opts)) = Some u" and "protocol u = ''http:'' \<or> protocol u = ''https:''"
      and "completion (g URL parse opts fp first pre) = Pending" for u
    using client_ok [OF that] client_fail [OF that] clone by blast
  show ?thesis
    using A B C by blast
qed

theorem empty_body_outcomes_witness:
  "(\<exists>res. completion (HttpService_get JSON_parse_literal retryingOptions None None
             [Emit TimeoutEvent, Start None, Emit (End noContent [])]) =
            Returned (None, Some res) \<and>
          data res = None \<and> statusCode res = Some 204) \<and>
   (\<exists>res. completion (HttpService_get JSON_parse_literal exampleOptions None None
             [Emit (End notFound [])]) = Returned (Some (RejResponse res), None) \<and>
          data res = None \<and> statusCode res = Some 404) \<and>
   (\<exists>res. completion (HttpClientService_get URL_ctor JSON_parse_literal exampleOptions None None
             [Emit (End notFound [])]) = Returned (Some (RejResponse res), None) \<and>
          data res = None \<and> statusCode res = Some 404)"
proof -
  have w: "\<not> frozen retryingOptions" "\<not> frozen exampleOptions"
    by (simp_all add: retryingOptions_simps exampleOptions_simps)
  have u: "URL_ctor (hostOrEmpty (host exampleOptions)) = Some exampleUrl"
    by (simp add: URL_ctor_example exampleOptions_simps)
  have ops: "HttpService_get \<in> {HttpService_get, HttpService_post, HttpService_put, HttpService_delete}"
    "HttpClientService_get \<in> {HttpClientService_get, HttpClientService_post,
       HttpClientService_put, HttpClientService_delete}"
    by simp_all
  have sc: "statusCode noContent = Some 204" "statusCode notFound = Some 404"
    by (simp_all add: noContent_def notFound_def)
  have p1: "completion (HttpService_get JSON_parse_literal retryingOptions None None
      [Emit TimeoutEvent, Start None]) = Pending"
    by (simp add: HttpService_get_def HttpService_call_writable [OF w(1)] awaitTo_def)
       (simp add: engine_eval retryingOptions_def)
  have p2: "completion (HttpService_get JSON_parse_literal exampleOptions None None []) = Pending"
    "retriesCounted (HttpService_get JSON_parse_literal exampleOptions None None []) = 0"
    by (simp_all add: HttpService_get_def HttpService_call_writable [OF w(2)] awaitTo_def
          HttpService_makeRequest_def first_run)
  have p3: "completion (HttpClientService_get URL_ctor JSON_parse_literal exampleOptions
      None None []) = Pending"
    using HttpClientService_call_valid(1) [of exampleOptions URL_ctor exampleUrl
        JSON_parse_literal GET None None "[]"] w u
    by (simp add: HttpClientService_get_def exampleUrl_simps HttpClientService_promise_def
          awaitTo_def)
  have a: "\<exists>res. completion (HttpService_get JSON_parse_literal retryingOptions None None
             [Emit TimeoutEvent, Start None, Emit (End noContent [])]) =
            Returned (None, Some res) \<and>
          data res = None \<and> statusCode res = Some 204"
    using empty_body_outcomes [of HttpService_get HttpClientService_get retryingOptions noContent
        204 JSON_parse_literal None None "[Emit TimeoutEvent, Start None]" "[]" URL_ctor,
        OF ops w(1) sc(1)] p1
    by simp
  have b: "(\<exists>res. completion (HttpService_get JSON_parse_literal exampleOptions None None
             [Emit (End notFound [])]) = Returned (Some (RejResponse res), None) \<and>
          data res = None \<and> statusCode res = Some 404) \<and>
     (\<exists>res. completion (HttpClientService_get URL_ctor JSON_parse_literal exampleOptions None None
             [Emit (End notFound [])]) = Returned (Some (RejResponse res), None) \<and>
          data res = None \<and> statusCode res = Some 404)"
    using empty_body_outcomes [of HttpService_get HttpClientService_get exampleOptions notFound
        404 JSON_parse_literal None None "[]" "[]" URL_ctor, OF ops w(2) sc(2)] p2 p3 u
    by (simp add: exampleUrl_simps exampleOptions_simps)
  show ?thesis using a b by blast
qed

text \<open>
  C8. A \<open>timeout\<close> event reaching a call that is still pending, in \<open>HttpService\<close> once
  \<open>retries\<close> has reached \<open>maxRetries\<close> and in \<open>HttpClientService\<close> always, ends the call
  with a \<open>RequestTimeoutError\<close> whose message is \<open>Failed due timeout reason\<close>; an
  \<open>abort\<close> event ends it with a \<open>ServiceUnavailableError\<close> whose message is
  \<open>Failed due abort reason\<close>. Later events change nothing.
\<close>

theorem typed_error_on_timeout_and_abort:
  assumes "f \<in> {HttpService_get, HttpService_post, HttpService_put, HttpService_delete}"
    and "g \<in> {HttpClientService_get, HttpClientService_post, HttpClientService_put,
                HttpClientService_delete}"
    and "\<not> frozen opts"
  shows
    "(completion (f parse opts fp first pre) = Pending \<and>
      retryBudget opts \<le> int (retriesCounted (f parse opts fp first pre)) \<longrightarrow>
        completion (f parse opts fp first (pre @ Emit TimeoutEvent # rest)) =
          Returned (Some (RejError (JsError RequestTimeoutErrorC ''Failed due timeout reason'')), None) \<and>
        completion (f parse opts fp first (pre @ Emit AbortEvent # rest)) =
          Returned (Some (RejError (JsError ServiceUnavailableErrorC ''Failed due abort reason'')), None)) \<and>
     (\<forall>u. URL (hostOrEmpty (host opts)) = Some u \<and>
          (protocol u = ''http:'' \<or> protocol u = ''https:'') \<and>
          completion (g URL parse opts fp first pre) = Pending \<longrightarrow>
          completion (g URL parse opts fp first (pre @ Emit TimeoutEvent # rest)) =
            Returned (Some (RejError (JsError RequestTimeoutErrorC ''Failed due timeout reason'')), None) \<and>
          completion (g URL parse opts fp first (pre @ Emit AbortEvent # rest)) =
            Returned (Some (RejError (JsError ServiceUnavailableErrorC ''Failed due abort reason'')), None))"
proof -
  obtain m where f: "f = (\<lambda>parse. HttpService_call parse m)"
    using assms(1) by (rule HttpService_op_cases)
  obtain m' where g: "g = (\<lambda>URL parse. HttpClientService_call URL parse m')"
    using assms(2) by (rule HttpClientService_op_cases)
  have c: "HttpClientService_handle parse TimeoutEvent = Rejected (RejError timeoutError)"
    "HttpClientService_handle parse AbortEvent = Rejected (RejError abortError)"
    by (simp_all add: HttpClientService_handle_def)
  have legacy: "completion (f parse opts fp first (pre @ Emit ev # rest)) =
      Returned (to (HttpClientService_handle parse ev))"
    if "completion (f parse opts fp first pre) = Pending"
      and "retryBudget opts \<le> int (retriesCounted (f parse opts fp first pre))" for ev
  proof -
    have "HttpService_handle parse (retryBudget opts)
        (retriesCounted (HttpService_call parse m opts fp first pre)) ev =
        Settle (HttpClientService_handle parse ev)"
      using that(2) by (simp add: f handle_spent)
    from HttpService_call_settles(1) [OF assms(3) that(1) [unfolded f] this, of rest]
    show ?thesis by (simp add: f)
  qed
  have client: "completion (g URL parse opts fp first (pre @ Emit ev # rest)) =
      Returned (to (HttpClientService_handle parse ev))"
    if "URL (hostOrEmpty (host opts)) = Some u" and "protocol u = ''http:'' \<or> protocol u = ''https:''"
      and "completion (g URL parse opts fp first pre) = Pending" for u ev
    using HttpClientService_call_settles [of opts URL u parse m' fp first pre ev rest]
      that assms(3)
    by (simp add: g)
  show ?thesis
    using legacy [of TimeoutEvent] legacy [of AbortEvent]
      client [of _ TimeoutEvent] client [of _ AbortEvent]
    by (simp add: c timeoutError_def abortError_def)
qed

theorem typed_error_on_timeout_and_abort_witness:
  "retryBudget retryingOptions = 2 \<and>
   retriesCounted (HttpService_get JSON_parse_literal retryingOptions None None
       [Emit TimeoutEvent, Start None, Emit (End serverError []), Start None]) = 2 \<and>
   completion (HttpService_get JSON_parse_literal retryingOptions None None
       [Emit TimeoutEvent, Start None, Emit (End serverError []), Start None,
        Emit TimeoutEvent, Emit (End noContent [])]) =
     Returned (Some (RejError (JsError RequestTimeoutErrorC ''Failed due timeout reason'')), None) \<and>
   completion (HttpClientService_put URL_ctor JSON_parse_literal retryingOptions None None
       [Emit AbortEvent]) =
     Returned (Some (RejError (JsError ServiceUnavailableErrorC ''Failed due abort reason'')), None)"
proof -
  have w: "\<not> frozen retryingOptions" by (simp add: retryingOptions_simps)
  have u: "URL_ctor (hostOrEmpty (host retryingOptions)) = Some exampleUrl"
    by (simp add: URL_ctor_example retryingOptions_simps)
  have ops: "HttpService_get \<in> {HttpService_get, HttpService_post, HttpService_put, HttpService_delete}"
    "HttpClientService_put \<in> {HttpClientService_get, HttpClientService_post,
       HttpClientService_put, HttpClientService_delete}"
    by simp_all
  have p: "completion (HttpService_get JSON_parse_literal retryingOptions None None
      [Emit TimeoutEvent, Start None, Emit (End serverError []), Start None]) = Pending"
    "retriesCounted (HttpService_get JSON_parse_literal retryingOptions None None
      [Emit TimeoutEvent, Start None, Emit (End serverError []), Start None]) = 2"
    by (simp_all add: HttpService_get_def HttpService_call_writable [OF w] awaitTo_def)
       (simp_all add: engine_eval retryingOptions_def serverError_def)
  have q: "completion (HttpClientService_put URL_ctor JSON_parse_literal retryingOptions
      None None []) = Pending"
    using HttpClientService_call_valid(1) [of retryingOptions URL_ctor exampleUrl
        JSON_parse_literal PUT None None "[]"] w u
    by (simp add: HttpClientService_put_def exampleUrl_simps HttpClientService_promise_def
          awaitTo_def)
  have a: "completion (HttpService_get JSON_parse_literal retryingOptions None None
       [Emit TimeoutEvent, Start None, Emit (End serverError []), Start None,
        Emit TimeoutEvent, Emit (End noContent [])]) =
     Returned (Some (RejError (JsError RequestTimeoutErrorC ''Failed due timeout reason'')), None)"
    using typed_error_on_timeout_and_abort [OF ops w, of JSON_parse_literal None None
        "[Emit TimeoutEvent, Start None, Emit (End serverError []), Start None]"
        "[Emit (End noContent [])]" URL_ctor] p
    by (simp add: retryingOptions_simps)
  have b: "completion (HttpClientService_put URL_ctor JSON_parse_literal retryingOptions None None
       [Emit AbortEvent]) =
     Returned (Some (RejError (JsError ServiceUnavailableErrorC ''Failed due abort reason'')), None)"
    using typed_error_on_timeout_and_abort [OF ops w, of JSON_parse_literal None None "[]" "[]"
        URL_ctor] q u
    by (simp add: exampleUrl_simps)
  show ?thesis using a b p(2) by (simp add: retryingOptions_simps)
qed

text \<open>
  C9. The binder of either service leaves the options as they are when no fingerprint is
  given (\<open>undefined\<close> or the empty string). With a fingerprint it puts an https agent on
  the options (an https agent already there keeps its other options) whose
  \<open>checkServerIdentity\<close> accepts the peer exactly when the fingerprint equals the
  certificate's digest, and otherwise returns the error
  \<open>Fingerprint for host <host> does not match\<close>. The digest is \<open>fingerprint256\<close>, or
  \<open>fingerprint\<close> when \<open>fingerprint256\<close> is missing. Only on a frozen options object that
  has no https agent the write of the new agent is refused with a \<open>TypeError\<close>.
\<close>

theorem identity_check_binding:
  assumes "b \<in> {HttpService_setCheckServerIdentity, HttpClientService_setCheckServerIdentity}"
  shows
    "(fp = None \<or> fp = Some [] \<longrightarrow> b opts fp = Inr opts) \<and>
     (\<forall>d. fp = Some d \<and> d \<noteq> [] \<and> (\<not> frozen opts \<or> (\<exists>a. agent opts = TlsAgent a)) \<longrightarrow>
        (\<exists>check. b opts fp =
             Inr (opts\<lparr>agent := TlsAgent \<lparr>checkServerIdentity = Some check,
                                       keepAlive = (case agent opts of TlsAgent a \<Rightarrow> keepAlive a
                                                    | _ \<Rightarrow> None)\<rparr>\<rparr>) \<and>
           (\<forall>peer c. check peer c =
              (if d = certFingerprint c then None
               else Some (JsError ErrorC (''Fingerprint for host '' @ peer @ '' does not match'')))))) \<and>
     (\<forall>d. fp = Some d \<and> d \<noteq> [] \<and> frozen opts \<and> (\<forall>a. agent opts \<noteq> TlsAgent a) \<longrightarrow>
        b opts fp = Inl (readOnlyError ''agent'')) \<and>
     (\<forall>c s. fingerprint256 c = Some s \<and> s \<noteq> [] \<longrightarrow> certFingerprint c = s) \<and>
     (\<forall>c. fingerprint256 c = None \<longrightarrow> certFingerprint c = fingerprint c)"
proof -
  have noop: "b opts fp = Inr opts" if "fp = None \<or> fp = Some []"
    using assms that
    by (auto simp: HttpService_setCheckServerIdentity_def
          HttpClientService_setCheckServerIdentity_def noFingerprint_def)
  have bound: "\<exists>check. b opts fp =
        Inr (opts\<lparr>agent := TlsAgent \<lparr>checkServerIdentity = Some check,
                                  keepAlive = (case agent opts of TlsAgent a \<Rightarrow> keepAlive a
                                               | _ \<Rightarrow> None)\<rparr>\<rparr>) \<and>
      (\<forall>peer c. check peer c =
         (if d = certFingerprint c then None
          else Some (JsError ErrorC (''Fingerprint for host '' @ peer @ '' does not match''))))"
    if d: "fp = Some d" "d \<noteq> []" and w: "\<not> frozen opts \<or> (\<exists>a. agent opts = TlsAgent a)" for d
    using assms
  proof (cases rule: binder_cases)
    case 1
    have "b opts fp = installCheck (HttpService_checkServerIdentity fp) opts"
      using d by (simp add: 1 HttpService_setCheckServerIdentity_def noFingerprint_def)
    then show ?thesis
      using d installCheck_bound [OF w, of "HttpService_checkServerIdentity fp"]
      by (intro exI [of _ "HttpService_checkServerIdentity fp"])
        (simp add: checkServerIdentity_pinned fingerprintMismatch_def)
  next
    case 2
    have "b opts fp = installCheck (HttpClientService_checkServerIdentity fp) opts"
      using d by (simp add: 2 HttpClientService_setCheckServerIdentity_def noFingerprint_def)
    then show ?thesis
      using d installCheck_bound [OF w, of "HttpClientService_checkServerIdentity fp"]
      by (intro exI [of _ "HttpClientService_checkServerIdentity fp"])
        (simp add: checkServerIdentity_pinned fingerprintMismatch_def)
  qed
  have refused: "b opts fp = Inl (readOnlyError ''agent'')"
    if "fp = Some d" "d \<noteq> []" "frozen opts" "\<forall>a. agent opts \<noteq> TlsAgent a" for d
    using assms that
    by (auto simp: HttpService_setCheckServerIdentity_def
          HttpClientService_setCheckServerIdentity_def noFingerprint_def installCheck_frozen)
  have digest: "certFingerprint c = s" if "fingerprint256 c = Some s" "s \<noteq> []" for c s
    using that by (simp add: certFingerprint_def)
  have fallback: "certFingerprint c = fingerprint c" if "fingerprint256 c = None" for c
    using that by (simp add: certFingerprint_def)
  show ?thesis using noop bound refused digest fallback by blast
qed

theorem identity_check_binding_witness:
  "HttpService_setCheckServerIdentity keepAliveAgentOptions (Some []) = Inr keepAliveAgentOptions \<and>
   (\<exists>check. HttpClientService_setCheckServerIdentity keepAliveAgentOptions (Some ''12:34'') =
        Inr (keepAliveAgentOptions
          \<lparr>agent := TlsAgent \<lparr>checkServerIdentity = Some check, keepAlive = Some True\<rparr>\<rparr>) \<and>
      check ''security-example.com'' legacyCert = None \<and>
      check ''security-example.com'' pinnedCert =
        Some (JsError ErrorC ''Fingerprint for host security-example.com does not match'')) \<and>
   HttpService_setCheckServerIdentity frozenOptions (Some ''12:34'') =
     Inl (JsError TypeErrorC ''Cannot assign to read only property agent'') \<and>
   certFingerprint pinnedCert = ''AB:CD'' \<and>
   certFingerprint legacyCert = ''12:34''"
proof -
  have a: "agent keepAliveAgentOptions =
      TlsAgent \<lparr>checkServerIdentity = None, keepAlive = Some True\<rparr>"
    by (simp add: keepAliveAgentOptions_def)
  have p: "fingerprint256 pinnedCert = Some ''AB:CD''" "fingerprint256 legacyCert = None"
    "fingerprint legacyCert = ''12:34''"
    by (simp_all add: pinnedCert_def legacyCert_def)
  have c: "certFingerprint pinnedCert = ''AB:CD''" "certFingerprint legacyCert = ''12:34''"
    using p by (simp_all add: certFingerprint_def)
  have z: "frozen frozenOptions" "agent frozenOptions = AgentUndefined"
    by (simp_all add: frozenOptions_def)
  have noop: "HttpService_setCheckServerIdentity keepAliveAgentOptions (Some []) =
      Inr keepAliveAgentOptions"
    using identity_check_binding [of HttpService_setCheckServerIdentity "Some []"
        keepAliveAgentOptions]
    by simp
  have refused: "HttpService_setCheckServerIdentity frozenOptions (Some ''12:34'') =
     Inl (JsError TypeErrorC ''Cannot assign to read only property agent'')"
    using identity_check_binding [of HttpService_setCheckServerIdentity "Some ''12:34''"
        frozenOptions] z
    by (simp add: readOnlyError_def)
  obtain check where check:
    "HttpClientService_setCheckServerIdentity keepAliveAgentOptions (Some ''12:34'') =
       Inr (keepAliveAgentOptions
         \<lparr>agent := TlsAgent \<lparr>checkServerIdentity = Some check, keepAlive = Some True\<rparr>\<rparr>)"
    "\<And>peer c. check peer c =
       (if ''12:34'' = certFingerprint c then None
        else Some (JsError ErrorC (''Fingerprint for host '' @ peer @ '' does not match'')))"
    using identity_check_binding [of HttpClientService_setCheckServerIdentity "Some ''12:34''"
        keepAliveAgentOptions] a
    by auto
  have "check ''security-example.com'' legacyCert = None"
    and "check ''security-example.com'' pinnedCert =
      Some (JsError ErrorC ''Fingerprint for host security-example.com does not match'')"
    by (simp_all add: check(2) c)
  with noop refused check(1) c show ?thesis by blast
qed

text \<open>
  C10, amended. After a call on a writable options object the caller's options hold: the
  verb of the operation in \<open>method\<close>; with a fingerprint, an https agent with the
  identity check of the service, and the agent as it was without one. \<open>HttpService\<close>
  leaves \<open>host\<close> and \<open>port\<close> alone. In \<open>HttpClientService\<close>, when the host parses, \<open>host\<close>
  is the parsed hostname and \<open>port\<close> is the parsed port if the URL has one, else the
  port as it was; when the host does not parse, \<open>host\<close> and \<open>port\<close> are as they were.
  A frozen options object keeps its \<open>method\<close>, \<open>host\<close> and \<open>port\<close>.
\<close>

theorem options_after_call:
  assumes "(f, m) \<in> {(HttpService_get, GET), (HttpService_post, POST), (HttpService_put, PUT),
                       (HttpService_delete, DELETE)}"
    and "(g, m') \<in> {(HttpClientService_get, GET), (HttpClientService_post, POST),
                      (HttpClientService_put, PUT), (HttpClientService_delete, DELETE)}"
  shows
    "(\<not> frozen opts \<longrightarrow>
       method (after (f parse opts fp first trace)) = Some (methodName m) \<and>
       host (after (f parse opts fp first trace)) = host opts \<and>
       port (after (f parse opts fp first trace)) = port opts \<and>
       (fp = None \<or> fp = Some [] \<longrightarrow> agent (after (f parse opts fp first trace)) = agent opts) \<and>
       (\<forall>d. fp = Some d \<and> d \<noteq> [] \<longrightarrow>
          agent (after (f parse opts fp first trace)) =
            TlsAgent \<lparr>checkServerIdentity = Some (HttpService_checkServerIdentity fp),
                      keepAlive = (case agent opts of TlsAgent a \<Rightarrow> keepAlive a | _ \<Rightarrow> None)\<rparr>) \<and>
       method (after (g URL parse opts fp first trace)) = Some (methodName m') \<and>
       (fp = None \<or> fp = Some [] \<longrightarrow> agent (after (g URL parse opts fp first trace)) = agent opts) \<and>
       (\<forall>d. fp = Some d \<and> d \<noteq> [] \<longrightarrow>
          agent (after (g URL parse opts fp first trace)) =
            TlsAgent \<lparr>checkServerIdentity = Some (HttpClientService_checkServerIdentity fp),
                      keepAlive = (case agent opts of TlsAgent a \<Rightarrow> keepAlive a | _ \<Rightarrow> None)\<rparr>) \<and>
       (URL (hostOrEmpty (host opts)) = None \<longrightarrow>
          host (after (g URL parse opts fp first trace)) = host opts \<and>
          port (after (g URL parse opts fp first trace)) = port opts) \<and>
       (\<forall>u. URL (hostOrEmpty (host opts)) = Some u \<longrightarrow>
          host (after (g URL parse opts fp first trace)) = HostStr (hostname u) \<and>
          port (after (g URL parse opts fp first trace)) =
            (if urlPort u \<noteq> [] then PortStr (urlPort u) else port opts))) \<and>
     (frozen opts \<longrightarrow>
       after (f parse opts fp first trace) = opts \<and>
       method (after (g URL parse opts fp first trace)) = method opts \<and>
       host (after (g URL parse opts fp first trace)) = host opts \<and>
       port (after (g URL parse opts fp first trace)) = port opts)"
proof -
  have fm: "f = (\<lambda>parse. HttpService_call parse m)"
    using HttpService_op_method_cases [OF assms(1)] .
  have gm: "g = (\<lambda>URL parse. HttpClientService_call URL parse m')"
    using HttpClientService_op_method_cases [OF assms(2)] .
  have cold: "after (f parse opts fp first trace) = opts \<and>
       method (after (g URL parse opts fp first trace)) = method opts \<and>
       host (after (g URL parse opts fp first trace)) = host opts \<and>
       port (after (g URL parse opts fp first trace)) = port opts" if "frozen opts"
    using after_frozen(1) [OF that, of parse m fp first trace]
      after_frozen(2,3,4) [OF that, of URL parse m' fp first trace]
    by (simp add: fm gm)
  have warm: "method (after (f parse opts fp first trace)) = Some (methodName m) \<and>
       host (after (f parse opts fp first trace)) = host opts \<and>
       port (after (f parse opts fp first trace)) = port opts \<and>
       (fp = None \<or> fp = Some [] \<longrightarrow> agent (after (f parse opts fp first trace)) = agent opts) \<and>
       (\<forall>d. fp = Some d \<and> d \<noteq> [] \<longrightarrow>
          agent (after (f parse opts fp first trace)) =
            TlsAgent \<lparr>checkServerIdentity = Some (HttpService_checkServerIdentity fp),
                      keepAlive = (case agent opts of TlsAgent a \<Rightarrow> keepAlive a | _ \<Rightarrow> None)\<rparr>) \<and>
       method (after (g URL parse opts fp first trace)) = Some (methodName m') \<and>
       (fp = None \<or> fp = Some [] \<longrightarrow> agent (after (g URL parse opts fp first trace)) = agent opts) \<and>
       (\<forall>d. fp = Some d \<and> d \<noteq> [] \<longrightarrow>
          agent (after (g URL parse opts fp first trace)) =
            TlsAgent \<lparr>checkServerIdentity = Some (HttpClientService_checkServerIdentity fp),
                      keepAlive = (case agent opts of TlsAgent a \<Rightarrow> keepAlive a | _ \<Rightarrow> None)\<rparr>) \<and>
       (URL (hostOrEmpty (host opts)) = None \<longrightarrow>
          host (after (g URL parse opts fp first trace)) = host opts \<and>
          port (after (g URL parse opts fp first trace)) = port opts) \<and>
       (\<forall>u. URL (hostOrEmpty (host opts)) = Some u \<longrightarrow>
          host (after (g URL parse opts fp first trace)) = HostStr (hostname u) \<and>
          port (after (g URL parse opts fp first trace)) =
            (if urlPort u \<noteq> [] then PortStr (urlPort u) else port opts))"
    if w: "\<not> frozen opts"
  proof -
    let ?o1 = "opts\<lparr>method := Some (methodName m)\<rparr>"
    have w1: "\<not> frozen ?o1" using w by simp
    have f: "HttpService_setCheckServerIdentity ?o1 fp = Inr (after (f parse opts fp first trace))"
      using after_HttpService_call [OF w, of m fp parse first trace] by (simp add: fm)
    obtain opts1 where b: "HttpClientService_setCheckServerIdentity opts fp = Inr opts1"
      and g: "after (g URL parse opts fp first trace) =
        (case URL (hostOrEmpty (host opts)) of
           None \<Rightarrow> opts1\<lparr>method := Some (methodName m')\<rparr>
         | Some u \<Rightarrow>
             opts1\<lparr>method := Some (methodName m'), host := HostStr (hostname u),
                   port := (if urlPort u \<noteq> [] then PortStr (urlPort u) else port opts)\<rparr>)"
      using after_HttpClientService_call [OF w, of fp URL parse m' first trace]
      by (auto simp: gm)
    consider "fp = None \<or> fp = Some []" | d where "fp = Some d" "d \<noteq> []"
      by (cases fp) auto
    then show ?thesis
    proof cases
      case 1
      have "after (f parse opts fp first trace) = ?o1"
        using f setCheckServerIdentity_absent(1) [OF 1, of ?o1] by simp
      moreover have "opts1 = opts"
        using b setCheckServerIdentity_absent(2) [OF 1, of opts] by simp
      ultimately show ?thesis
        using 1 g by (auto split: option.splits)
    next
      case 2
      have "after (f parse opts fp first trace) =
          ?o1\<lparr>agent := TlsAgent \<lparr>checkServerIdentity = Some (HttpService_checkServerIdentity fp),
                                  keepAlive = (case agent ?o1 of TlsAgent a \<Rightarrow> keepAlive a
                                               | _ \<Rightarrow> None)\<rparr>\<rparr>"
        using f setCheckServerIdentity_present(1) [OF 2, of ?o1]
          installCheck_writable [OF w1, of "HttpService_checkServerIdentity fp"]
        by simp
      moreover have "opts1 =
          opts\<lparr>agent := TlsAgent \<lparr>checkServerIdentity = Some (HttpClientService_checkServerIdentity fp),
                                  keepAlive = (case agent opts of TlsAgent a \<Rightarrow> keepAlive a
                                               | _ \<Rightarrow> None)\<rparr>\<rparr>"
        using b setCheckServerIdentity_present(2) [OF 2, of opts]
          installCheck_writable [OF w, of "HttpClientService_checkServerIdentity fp"]
        by simp
      ultimately show ?thesis
        using 2 g by (auto split: option.splits)
    qed
  qed
  show ?thesis using cold warm by blast
qed

theorem options_after_call_witness:
  "method (after (HttpService_put JSON_parse_literal retryingOptions (Some ''AB:CD'') None
             [Emit TimeoutEvent])) = Some ''PUT'' \<and>
   agent (after (HttpService_put JSON_parse_literal retryingOptions (Some ''AB:CD'') None
             [Emit TimeoutEvent])) =
     TlsAgent \<lparr>checkServerIdentity = Some (HttpService_checkServerIdentity (Some ''AB:CD'')),
               keepAlive = None\<rparr> \<and>
   method (after (HttpClientService_delete URL_ctor JSON_parse_literal retryingOptions
             (Some ''AB:CD'') None [Emit TimeoutEvent])) = Some ''DELETE'' \<and>
   host (after (HttpClientService_delete URL_ctor JSON_parse_literal retryingOptions
             (Some ''AB:CD'') None [Emit TimeoutEvent])) = HostStr ''example.com'' \<and>
   port (after (HttpClientService_delete URL_ctor JSON_parse_literal retryingOptions
             (Some ''AB:CD'') None [Emit TimeoutEvent])) = PortUndefined \<and>
   after (HttpService_put JSON_parse_literal frozenOptions (Some ''AB:CD'') None
             [Emit TimeoutEvent]) = frozenOptions"
proof -
  have u: "URL_ctor (hostOrEmpty (host retryingOptions)) = Some exampleUrl"
    by (simp add: URL_ctor_example retryingOptions_simps)
  have o: "agent retryingOptions = AgentUndefined" "port retryingOptions = PortUndefined"
    "\<not> frozen retryingOptions" "frozen frozenOptions"
    by (simp_all add: retryingOptions_def frozenOptions_def)
  have ops: "(HttpService_put, PUT) \<in> {(HttpService_get, GET), (HttpService_post, POST),
        (HttpService_put, PUT), (HttpService_delete, DELETE)}"
    "(HttpClientService_delete, DELETE) \<in> {(HttpClientService_get, GET),
        (HttpClientService_post, POST), (HttpClientService_put, PUT),
        (HttpClientService_delete, DELETE)}"
    by simp_all
  have a: "method (after (HttpService_put JSON_parse_literal retryingOptions (Some ''AB:CD'') None
             [Emit TimeoutEvent])) = Some ''PUT'' \<and>
   agent (after (HttpService_put JSON_parse_literal retryingOptions (Some ''AB:CD'') None
             [Emit TimeoutEvent])) =
     TlsAgent \<lparr>checkServerIdentity = Some (HttpService_checkServerIdentity (Some ''AB:CD'')),
               keepAlive = None\<rparr> \<and>
   method (after (HttpClientService_delete URL_ctor JSON_parse_literal retryingOptions
             (Some ''AB:CD'') None [Emit TimeoutEvent])) = Some ''DELETE'' \<and>
   host (after (HttpClientService_delete URL_ctor JSON_parse_literal retryingOptions
             (Some ''AB:CD'') None [Emit TimeoutEvent])) = HostStr ''example.com'' \<and>
   port (after (HttpClientService_delete URL_ctor JSON_parse_literal retryingOptions
             (Some ''AB:CD'') None [Emit TimeoutEvent])) = PortUndefined"
    using options_after_call [OF ops, of retryingOptions JSON_parse_literal "Some ''AB:CD''" None
        "[Emit TimeoutEvent]" URL_ctor] u o
    by (simp add: exampleUrl_def)
  have b: "after (HttpService_put JSON_parse_literal frozenOptions (Some ''AB:CD'') None
             [Emit TimeoutEvent]) = frozenOptions"
    using options_after_call [OF ops, of frozenOptions JSON_parse_literal "Some ''AB:CD''" None
        "[Emit TimeoutEvent]" URL_ctor] o(4)
    by simp
  show ?thesis using a b by blast
qed

text \<open>
  C10 as stated fails: \<open>HttpService.get\<close> on options whose method is already \<open>GET\<close>,
  with no fingerprint, leaves an object equal to the one passed in;
  \<open>HttpClientService.get\<close> on \<open>http://example.com\<close> with port 8080 keeps 8080, though
  the parsed port is the empty string; and on \<open>invalid-host\<close> the host is not replaced.
\<close>

theorem options_after_call_counterexample:
  "after (HttpService_get JSON_parse_literal exampleOptions None None [Emit TimeoutEvent]) =
     exampleOptions \<and>
   URL_ctor ''http://example.com'' =
     Some \<lparr>protocol = ''http:'', hostname = ''example.com'', urlPort = []\<rparr> \<and>
   port (after (HttpClientService_get URL_ctor JSON_parse_literal exampleOptions None None
                  [Emit TimeoutEvent])) = PortNum 8080 \<and>
   host (after (HttpClientService_get URL_ctor JSON_parse_literal invalidHostOptions None None
                  [Emit TimeoutEvent])) = HostStr ''invalid-host''"
proof -
  have u: "URL_ctor (hostOrEmpty (host exampleOptions)) = Some exampleUrl"
    by (simp add: URL_ctor_example exampleOptions_simps)
  have n: "URL_ctor (hostOrEmpty (host invalidHostOptions)) = None"
    by (simp add: URL_ctor_invalid_host invalidHostOptions_def)
  have w: "\<not> frozen exampleOptions" "\<not> frozen invalidHostOptions"
    by (simp_all add: exampleOptions_def invalidHostOptions_def)
  have "Inr (after (HttpService_get JSON_parse_literal exampleOptions None None [Emit TimeoutEvent])) =
      (Inr exampleOptions :: js_error + options)"
    using after_HttpService_call [OF w(1), of GET None JSON_parse_literal None "[Emit TimeoutEvent]"]
    by (simp add: HttpService_get_def setCheckServerIdentity_absent(1))
       (simp add: exampleOptions_def)
  then have a: "after (HttpService_get JSON_parse_literal exampleOptions None None
      [Emit TimeoutEvent]) = exampleOptions"
    by simp
  have b: "port (after (HttpClientService_get URL_ctor JSON_parse_literal exampleOptions
      None None [Emit TimeoutEvent])) = PortNum 8080"
    using after_HttpClientService_call [OF w(1), of None URL_ctor JSON_parse_literal GET None
        "[Emit TimeoutEvent]"] u
    by (auto simp: HttpClientService_get_def setCheckServerIdentity_absent(2) exampleUrl_def)
       (simp add: exampleOptions_def)
  have c: "host (after (HttpClientService_get URL_ctor JSON_parse_literal
      invalidHostOptions None None [Emit TimeoutEvent])) = HostStr ''invalid-host''"
    using after_HttpClientService_call [OF w(2), of None URL_ctor JSON_parse_literal GET None
        "[Emit TimeoutEvent]"] n
    by (auto simp: HttpClientService_get_def setCheckServerIdentity_absent(2))
       (simp add: invalidHostOptions_def)
  show ?thesis using a b c URL_ctor_example by (simp add: exampleUrl_def)
qed

end
